theory Spec2Isabelle
  imports Complex_Main
begin

section \<open>Data model\<close>

text \<open>
  The mapping helpers of \<^verbatim>\<open>tangram/mapping_utils.py\<close> work on annotated data
  matrices (AnnData): an expression matrix \<^verbatim>\<open>X\<close> with one row per observation and one
  column per gene, a table \<^verbatim>\<open>obs\<close> of per-observation columns, the gene names
  \<^verbatim>\<open>var.index\<close> with a table \<^verbatim>\<open>var\<close> of per-gene columns, and a dictionary \<^verbatim>\<open>uns\<close>.

  Numbers are modelled as reals: rounding to \<^verbatim>\<open>float32\<close> is not modelled. Division is
  numpy's, which does not raise on a zero divisor but yields \<^verbatim>\<open>nan\<close> or an infinity.
\<close>

datatype py_error =
    ValueError string
  | AssertionError
  | NotImplementedError
  | AttributeError string string
  | KeyError string
  | InvalidIndexError string
  | TypeError string

text \<open>
  The text an error carries (\<^verbatim>\<open>str(e)\<close>): empty for an error raised without one. An
  \<^verbatim>\<open>AttributeError\<close> names the class of the object and the attribute that it lacks.
\<close>

fun error_message :: "py_error \<Rightarrow> string" where
  "error_message (ValueError m) = m"
| "error_message AssertionError = []"
| "error_message NotImplementedError = []"
| "error_message (AttributeError cls attr) =
     [CHR 0x27] @ cls @ [CHR 0x27] @ '' object has no attribute '' @ [CHR 0x27] @ attr @ [CHR 0x27]"
| "error_message (KeyError m) = m"
| "error_message (InvalidIndexError m) = m"
| "error_message (TypeError m) = m"

datatype npfloat = Fin real | NaN | PosInf | NegInf

definition true_divide :: "real \<Rightarrow> real \<Rightarrow> npfloat" where
  "true_divide a b =
     (if b \<noteq> 0 then Fin (a / b)
      else if a = 0 then NaN
      else if 0 < a then PosInf else NegInf)"

type_synonym mat = "real list list"

text \<open>
  The storage class of \<^verbatim>\<open>X\<close>, which the code inspects with \<^verbatim>\<open>isinstance\<close>:
  \<^verbatim>\<open>csc_matrix\<close>, \<^verbatim>\<open>csr_matrix\<close>, \<^verbatim>\<open>np.ndarray\<close>, or any other class. Each carries
  the entries as a list of rows.
\<close>

datatype storage = Csc mat | Csr mat | Ndarray mat | Other mat

fun rows_of :: "storage \<Rightarrow> mat" where
  "rows_of (Csc m) = m"
| "rows_of (Csr m) = m"
| "rows_of (Ndarray m) = m"
| "rows_of (Other m) = m"

fun map_storage :: "(mat \<Rightarrow> mat) \<Rightarrow> storage \<Rightarrow> storage" where
  "map_storage f (Csc m) = Csc (f m)"
| "map_storage f (Csr m) = Csr (f m)"
| "map_storage f (Ndarray m) = Ndarray (f m)"
| "map_storage f (Other m) = Other (f m)"

fun is_csc :: "storage \<Rightarrow> bool" where
  "is_csc (Csc m) = True"
| "is_csc s = False"

fun is_csr :: "storage \<Rightarrow> bool" where
  "is_csr (Csr m) = True"
| "is_csr s = False"

fun is_ndarray :: "storage \<Rightarrow> bool" where
  "is_ndarray (Ndarray m) = True"
| "is_ndarray s = False"

text \<open>A table cell: a label or a number.\<close>

datatype cell = Str string | Num npfloat

record adata =
  X :: storage
  obs :: "string \<rightharpoonup> cell list"
  var_index :: "string list"
  var :: "string \<rightharpoonup> cell list"
  uns :: "string \<rightharpoonup> string list"

definition n_obs :: "adata \<Rightarrow> nat" where
  "n_obs ad = length (rows_of (X ad))"

definition n_vars :: "adata \<Rightarrow> nat" where
  "n_vars ad = length (var_index ad)"

text \<open>The shape invariant of an AnnData: every row of \<^verbatim>\<open>X\<close> has one entry per gene.\<close>

definition wf_adata :: "adata \<Rightarrow> bool" where
  "wf_adata ad = list_all (\<lambda>r. length r = n_vars ad) (rows_of (X ad))"

section \<open>Array and table helpers\<close>

text \<open>\<^verbatim>\<open>M.sum(axis=0)\<close> and \<^verbatim>\<open>M.mean(axis=0)\<close> of a matrix with \<open>n\<close> columns.\<close>

definition sum_axis0 :: "nat \<Rightarrow> mat \<Rightarrow> real list" where
  "sum_axis0 n m = foldl (\<lambda>acc r. map2 (+) acc r) (replicate n 0) m"

definition mean_axis0 :: "nat \<Rightarrow> mat \<Rightarrow> real list" where
  "mean_axis0 n m = map (\<lambda>s. s / real (length m)) (sum_axis0 n m)"

text \<open>\<^verbatim>\<open>M.sum(axis=1)\<close>.\<close>

definition sum_axis1 :: "mat \<Rightarrow> real list" where
  "sum_axis1 m = map sum_list m"

text \<open>Column \<open>j\<close> of a matrix, and the transpose of a matrix with \<open>n\<close> columns.\<close>

definition col :: "mat \<Rightarrow> nat \<Rightarrow> real list" where
  "col m j = map (\<lambda>r. r ! j) m"

definition transpose_mat :: "nat \<Rightarrow> mat \<Rightarrow> mat" where
  "transpose_mat n m = map (col m) [0..<n]"

text \<open>\<^verbatim>\<open>v1 @ v2\<close> on vectors and \<^verbatim>\<open>A @ B\<close> on matrices (\<open>B\<close> with \<open>n\<close> columns).\<close>

definition dot :: "real list \<Rightarrow> real list \<Rightarrow> real" where
  "dot u v = sum_list (map2 (*) u v)"

definition matmul :: "nat \<Rightarrow> mat \<Rightarrow> mat \<Rightarrow> mat" where
  "matmul n a b = map (\<lambda>r. map (\<lambda>j. dot r (col b j)) [0..<n]) a"

definition linalg_norm :: "real list \<Rightarrow> real" where
  "linalg_norm v = sqrt (sum_list (map (\<lambda>x. x * x) v))"

text \<open>\<^verbatim>\<open>M.any(axis=0).all()\<close> for a matrix with \<open>n\<close> columns.\<close>

definition any_axis0_all :: "nat \<Rightarrow> mat \<Rightarrow> bool" where
  "any_axis0_all n m = list_all (\<lambda>j. list_ex (\<lambda>r. r ! j \<noteq> 0) m) [0..<n]"

text \<open>The distinct values of a column in the order of their first appearance.\<close>

definition pd_unique :: "'a list \<Rightarrow> 'a list" where
  "pd_unique xs = foldl (\<lambda>acc x. if x \<in> set acc then acc else acc @ [x]) [] xs"

text \<open>
  \<^verbatim>\<open>Series.value_counts(normalize=True)\<close>: the distinct values with their counts, in
  descending order of count, each count divided by the number of entries. The order
  pandas gives to values of equal count is not specified; the model keeps them in the
  order of first appearance.
\<close>

definition value_counts :: "'a list \<Rightarrow> ('a \<times> real) list" where
  "value_counts xs =
     (let counts = map (\<lambda>x. (x, count_list xs x)) (pd_unique xs);
          sorted_counts = sort_key (\<lambda>p. - int (snd p)) counts
      in map (\<lambda>p. (fst p, real (snd p) / real (length xs))) sorted_counts)"

text \<open>\<^verbatim>\<open>series[i]\<close>: the value at a label, \<^verbatim>\<open>KeyError\<close> when the label is absent.\<close>

definition series_get :: "('a \<times> 'b) list \<Rightarrow> 'a \<Rightarrow> py_error + 'b" where
  "series_get s i = (case map_of s i of None \<Rightarrow> Inl (KeyError ''label'') | Some v \<Rightarrow> Inr v)"

text \<open>Running a fallible function over a list stops at the first error.\<close>

fun map_err :: "('a \<Rightarrow> py_error + 'b) \<Rightarrow> 'a list \<Rightarrow> py_error + 'b list" where
  "map_err f [] = Inr []"
| "map_err f (x # xs) =
     (case f x of
        Inl e \<Rightarrow> Inl e
      | Inr y \<Rightarrow> (case map_err f xs of Inl e \<Rightarrow> Inl e | Inr ys \<Rightarrow> Inr (y # ys)))"

text \<open>Position of a name in an index.\<close>

fun index_of :: "'a list \<Rightarrow> 'a \<Rightarrow> nat" where
  "index_of [] x = 0"
| "index_of (y # ys) x = (if x = y then 0 else Suc (index_of ys x))"

text \<open>
  \<^verbatim>\<open>adata[:, genes]\<close>: the view on the named genes. A name that is not in
  \<^verbatim>\<open>var.index\<close> is a \<^verbatim>\<open>KeyError\<close>; an index with repeated names cannot be searched.
  The view has the storage class of the original.
\<close>

definition take_at :: "nat list \<Rightarrow> 'a list \<Rightarrow> 'a list" where
  "take_at positions xs = map (\<lambda>p. xs ! p) positions"

definition subset_var :: "adata \<Rightarrow> string list \<Rightarrow> py_error + adata" where
  "subset_var ad genes =
     (if \<not> distinct (var_index ad) then
        Inl (InvalidIndexError ''Reindexing only valid with uniquely valued Index objects'')
      else if list_ex (\<lambda>g. g \<notin> set (var_index ad)) genes then
        Inl (KeyError ''Values are not valid obs/ var names or indices.'')
      else
        (let positions = map (index_of (var_index ad)) genes
         in Inr (ad\<lparr>X := map_storage (map (take_at positions)) (X ad),
                    var_index := genes,
                    var := (\<lambda>k. map_option (take_at positions) (var ad k))\<rparr>)))"

text \<open>\<^verbatim>\<open>adata[mask]\<close>: the rows selected by a boolean mask.\<close>

definition select_rows :: "bool list \<Rightarrow> mat \<Rightarrow> mat" where
  "select_rows flags m = map snd (filter fst (zip flags m))"

text \<open>
  \<^verbatim>\<open>view.X.toarray()\<close> on the expression matrix of a view \<^verbatim>\<open>adata[:, genes]\<close>. The
  two sparse classes convert to a dense array. The matrix of a view on a dense dataset
  is an \<^verbatim>\<open>ArrayView\<close> of the AnnData library, which also has the method and returns
  its entries. The code never calls the method on a matrix of a class that it does not
  recognise; such a class is taken to lack it.
\<close>

fun toarray :: "storage \<Rightarrow> py_error + mat" where
  "toarray (Csc m) = Inr m"
| "toarray (Csr m) = Inr m"
| "toarray (Ndarray m) = Inr m"
| "toarray (Other m) = Inl (AttributeError ''object'' ''toarray'')"

section \<open>Clustering: \<^verbatim>\<open>adata_to_cluster_expression\<close>\<close>

text \<open>
  Lines 73--102. One observation per cluster label; the row of a cluster is the
  column-wise mean of its members when \<^verbatim>\<open>scale\<close> is false and their column-wise sum
  otherwise. With \<^verbatim>\<open>add_density\<close> the normalised cluster sizes are stored as
  \<^verbatim>\<open>obs["cluster_density"]\<close>. Labels are taken to hold no missing values.
\<close>

definition cluster_row :: "adata \<Rightarrow> cell list \<Rightarrow> bool \<Rightarrow> cell \<Rightarrow> real list" where
  "cluster_row ad labels scale l =
     (let members = select_rows (map (\<lambda>x. x = l) labels) (rows_of (X ad))
      in if \<not> scale then mean_axis0 (n_vars ad) members
         else sum_axis0 (n_vars ad) members)"

definition adata_to_cluster_expression ::
  "adata \<Rightarrow> string \<Rightarrow> bool \<Rightarrow> bool \<Rightarrow> py_error + adata" where
  "adata_to_cluster_expression ad cluster_label scale add_density =
     (case obs ad cluster_label of
        None \<Rightarrow> Inl (ValueError ''Provided label must belong to adata.obs.'')
      | Some labels \<Rightarrow>
          (let counts = value_counts labels;
               unique_labels = map fst counts;
               new_obs = [cluster_label \<mapsto> unique_labels];
               X_new = map (cluster_row ad labels scale) unique_labels;
               adata_ret = \<lparr>X = Ndarray X_new, obs = new_obs, var_index = var_index ad,
                            var = var ad, uns = uns ad\<rparr>
           in if add_density then
                (case map_err (series_get counts) unique_labels of
                   Inl e \<Rightarrow> Inl e
                 | Inr dens \<Rightarrow>
                     Inr (adata_ret\<lparr>obs := (obs adata_ret)
                            (''cluster_density'' \<mapsto> map (\<lambda>v. Num (Fin v)) dens)\<rparr>))
              else Inr adata_ret))"

section \<open>Preprocessing: \<^verbatim>\<open>pp_adatas\<close>\<close>

text \<open>\<^verbatim>\<open>g.lower()\<close> on ASCII gene names.\<close>

definition lower_char :: "char \<Rightarrow> char" where
  "lower_char c =
     (let n = (of_char c :: nat) in if 65 \<le> n \<and> n \<le> 90 then char_of (n + 32) else c)"

definition lower :: "string \<Rightarrow> string" where
  "lower g = map lower_char g"

text \<open>
  \<^verbatim>\<open>sc.pp.filter_genes(adata, min_cells=1)\<close>: the number of observations with a
  positive entry is recorded per gene as \<^verbatim>\<open>var["n_cells"]\<close>, and the genes for which
  it is below 1 are removed.
\<close>

definition keep_where :: "bool list \<Rightarrow> 'a list \<Rightarrow> 'a list" where
  "keep_where flags xs = map fst (filter snd (zip xs flags))"

definition number_per_gene :: "adata \<Rightarrow> nat list" where
  "number_per_gene ad =
     map (\<lambda>j. length (filter (\<lambda>r. 0 < r ! j) (rows_of (X ad)))) [0..<n_vars ad]"

definition gene_subset :: "adata \<Rightarrow> bool list" where
  "gene_subset ad = map (\<lambda>k. 1 \<le> k) (number_per_gene ad)"

definition filter_genes :: "adata \<Rightarrow> adata" where
  "filter_genes ad =
     (let annotated = (var ad)(''n_cells'' \<mapsto> map (\<lambda>k. Num (Fin (real k))) (number_per_gene ad))
      in ad\<lparr>X := map_storage (map (keep_where (gene_subset ad))) (X ad),
            var_index := keep_where (gene_subset ad) (var_index ad),
            var := (\<lambda>k. map_option (keep_where (gene_subset ad)) (annotated k))\<rparr>)"

text \<open>
  Lines 22--68. The two datasets are updated in place; the model returns them.
  \<^verbatim>\<open>var_names_make_unique\<close> belongs to the AnnData library and is a parameter.
  Python does not specify the order in which the intersection of the three sets is
  listed; the model lists it in the order of the requested genes.
\<close>

definition pp_adatas ::
  "(string list \<Rightarrow> string list) \<Rightarrow> adata \<Rightarrow> adata \<Rightarrow> string list option \<Rightarrow> adata \<times> adata" where
  "pp_adatas var_names_make_unique adata_sc adata_sp genes =
     (let sc1 = adata_sc\<lparr>var_index := map lower (var_index adata_sc)\<rparr>;
          sp1 = adata_sp\<lparr>var_index := map lower (var_index adata_sp)\<rparr>;
          sc2 = sc1\<lparr>var_index := var_names_make_unique (var_index sc1)\<rparr>;
          sp2 = sp1\<lparr>var_index := var_names_make_unique (var_index sp1)\<rparr>;
          sc3 = filter_genes sc2;
          sp3 = filter_genes sp2;
          genes1 = (case genes of
                      None \<Rightarrow> map lower (var_index sc3)
                    | Some gs \<Rightarrow> map lower gs);
          genes2 = filter (\<lambda>g. g \<in> set (var_index sc3) \<and> g \<in> set (var_index sp3))
                     (remdups genes1);
          sc4 = sc3\<lparr>uns := (uns sc3)(''training_genes'' \<mapsto> genes2)\<rparr>;
          sp4 = sp3\<lparr>uns := (uns sp3)(''training_genes'' \<mapsto> genes2)\<rparr>;
          rna_count_per_spot = sum_axis1 (rows_of (X sp4));
          total = sum_list rna_count_per_spot
      in (sc4,
          sp4\<lparr>obs := (obs sp4)(''rna_count_based_density'' \<mapsto>
                   map (\<lambda>k. Num (true_divide k total)) rna_count_per_spot)\<rparr>))"

section \<open>Mapping: \<^verbatim>\<open>map_cells_to_space\<close>\<close>

text \<open>
  A density is given by name, as an array, or as a column read from \<^verbatim>\<open>obs\<close>.
\<close>

datatype prior = Label string | Array "npfloat list" | Series "cell list"

text \<open>The arguments of a call (lines 105--124).\<close>

record call =
  adata_cells :: adata
  adata_space :: adata
  mode :: string
  adata_map :: "adata option"
  device :: string
  learning_rate :: real
  num_epochs :: int
  d :: "prior option"
  cluster_label :: "string option"
  scale :: bool
  lambda_d :: real
  lambda_g1 :: real
  lambda_g2 :: real
  lambda_r :: real
  random_state :: "int option"
  verbose :: bool
  density_prior :: "prior option"
  comet_experiment :: "string option"

text \<open>The keyword arguments handed to \<^verbatim>\<open>mo.Mapper\<close> and to its \<^verbatim>\<open>train\<close>.\<close>

record mapper_kwargs =
  kw_S :: mat
  kw_G :: mat
  kw_d :: "prior option"
  kw_device :: string
  kw_adata_map :: "adata option"
  kw_random_state :: "int option"
  kw_lambda_d :: real
  kw_lambda_g1 :: real
  kw_lambda_g2 :: real
  kw_lambda_r :: real

record train_kwargs =
  kw_learning_rate :: real
  kw_num_epochs :: int
  kw_print_each :: "nat option"
  kw_experiment :: "string option"

text \<open>
  What the function calls outside \<^verbatim>\<open>mapping_utils.py\<close>: \<^verbatim>\<open>torch.device\<close>, the
  optimizer \<^verbatim>\<open>mo.Mapper\<close> with its \<^verbatim>\<open>train\<close>, and \<^verbatim>\<open>ut.annotate_gene_sparsity\<close>.
  They are parameters of the model, and each may raise.
\<close>

record ('m, 'h) env =
  torch_device :: "string \<Rightarrow> py_error + string"
  Mapper :: "mapper_kwargs \<Rightarrow> py_error + 'm"
  train :: "'m \<Rightarrow> train_kwargs \<Rightarrow> py_error + (mat \<times> 'h)"
  annotate_gene_sparsity :: "adata \<Rightarrow> py_error + adata"

text \<open>Lines 139--150: the checks on the arguments, in the order of the source.\<close>

definition check_arguments :: "call \<Rightarrow> py_error option" where
  \<open>check_arguments c =
     (if lambda_g1 c = 0 then Some (ValueError ''lambda_g1 cannot be 0.'')
      else if density_prior c \<noteq> None \<and> lambda_d c = 0 then
        Some (ValueError ''When density_prior is not None, lambda_d cannot be 0.'')
      else if mode c \<notin> set [''clusters'', ''cells''] then
        Some (ValueError ''Argument "mode" must be "cells" or "clusters"'')
      else if mode c = ''clusters'' \<and> cluster_label c = None then
        Some (ValueError ''A cluster_label must be specified if mode = clusters.'')
      else None)\<close>

text \<open>
  Lines 152--155: in clusters mode the cells are replaced by their clusters. A missing
  label cannot reach this point; looking it up in \<^verbatim>\<open>obs\<close> would fail the same way
  as an unknown one.
\<close>

definition cluster_cells :: "call \<Rightarrow> py_error + adata" where
  "cluster_cells c =
     (if mode c = ''clusters'' then
        (case cluster_label c of
           None \<Rightarrow> Inl (ValueError ''Provided label must belong to adata.obs.'')
         | Some l \<Rightarrow> adata_to_cluster_expression (adata_cells c) l (scale c) True)
      else Inr (adata_cells c))"

text \<open>Lines 157--169: the training genes of the two datasets.\<close>

definition get_training_genes :: "adata \<Rightarrow> adata \<Rightarrow> py_error + string list" where
  "get_training_genes cells space =
     (case uns cells ''training_genes'' of
        None \<Rightarrow> Inl (ValueError ''Missing tangram parameters. Run `pp_adatas()`.'')
      | Some genes_cells \<Rightarrow>
          (case uns space ''training_genes'' of
             None \<Rightarrow> Inl (ValueError ''Missing tangram parameters. Run `pp_adatas()`.'')
           | Some genes_space \<Rightarrow>
               if genes_space = genes_cells then Inr genes_cells else Inl AssertionError))"

text \<open>
  Lines 174--181: the matrix \<open>S\<close>. Both recognised branches call \<^verbatim>\<open>.X.toarray()\<close> on
  the view.
\<close>

definition extract_S :: "adata \<Rightarrow> string list \<Rightarrow> py_error + mat" where
  "extract_S cells genes =
     (if is_csc (X cells) \<or> is_csr (X cells) then
        (case subset_var cells genes of Inl e \<Rightarrow> Inl e | Inr view \<Rightarrow> toarray (X view))
      else if is_ndarray (X cells) then
        (case subset_var cells genes of Inl e \<Rightarrow> Inl e | Inr view \<Rightarrow> toarray (X view))
      else Inl NotImplementedError)"

text \<open>
  Lines 183--190: the matrix \<open>G\<close>. The sparse branch calls \<^verbatim>\<open>.toarray()\<close> on the view
  itself, an AnnData, which has no such attribute; the dense branch reads \<^verbatim>\<open>.X\<close>.
\<close>

definition anndata_toarray :: "adata \<Rightarrow> py_error + mat" where
  "anndata_toarray view = Inl (AttributeError ''AnnData'' ''toarray'')"

definition extract_G :: "adata \<Rightarrow> string list \<Rightarrow> py_error + mat" where
  "extract_G space genes =
     (if is_csc (X space) \<or> is_csr (X space) then
        (case subset_var space genes of Inl e \<Rightarrow> Inl e | Inr view \<Rightarrow> anndata_toarray view)
      else if is_ndarray (X space) then
        (case subset_var space genes of Inl e \<Rightarrow> Inl e | Inr view \<Rightarrow> Inr (rows_of (X view)))
      else Inl NotImplementedError)"

text \<open>\<^verbatim>\<open>np.ones(G.shape[0]) / G.shape[0]\<close>.\<close>

definition uniform_density :: "mat \<Rightarrow> prior" where
  "uniform_density G_mat =
     Array (map (\<lambda>one. true_divide one (real (length G_mat))) (replicate (length G_mat) 1))"

text \<open>
  Lines 195--201: a density given by name is replaced by its vector. An array compared
  with a string is unequal to it.
\<close>

definition resolve_density_prior :: "adata \<Rightarrow> mat \<Rightarrow> prior option \<Rightarrow> py_error + prior option" where
  "resolve_density_prior space G_mat p =
     (if p = Some (Label ''rna_count_based'') then
        (case obs space ''rna_count_based_density'' of
           None \<Rightarrow> Inl (KeyError ''rna_count_based_density'')
         | Some column \<Rightarrow> Inr (Some (Series column)))
      else if p = Some (Label ''uniform'') then Inr (Some (uniform_density G_mat))
      else Inr p)"

text \<open>
  Lines 203--209: the local \<^verbatim>\<open>d\<close> starts as the argument of that name and is assigned
  in each of the two modes.
\<close>

definition assign_d :: "string \<Rightarrow> mat \<Rightarrow> prior option \<Rightarrow> prior option \<Rightarrow> prior option" where
  "assign_d md G_mat d_arg p =
     (let d1 = (if md = ''cells'' then p else d_arg);
          d2 = (if md = ''clusters'' then
                  (case p of None \<Rightarrow> Some (uniform_density G_mat) | Some v \<Rightarrow> Some v)
                else d1)
      in d2)"

text \<open>
  Lines 139--219: everything up to the construction of the optimizer. The result is
  the dataset of cells (clustered in clusters mode), the training genes and the
  keyword arguments for \<^verbatim>\<open>mo.Mapper\<close>.
\<close>

definition map_cells_to_space_setup ::
  "('m, 'h) env \<Rightarrow> call \<Rightarrow> py_error + (adata \<times> string list \<times> mapper_kwargs)" where
  "map_cells_to_space_setup env c =
     (case check_arguments c of
        Some e \<Rightarrow> Inl e
      | None \<Rightarrow>
     (case cluster_cells c of
        Inl e \<Rightarrow> Inl e
      | Inr cells \<Rightarrow>
     (case get_training_genes cells (adata_space c) of
        Inl e \<Rightarrow> Inl e
      | Inr training_genes \<Rightarrow>
     (case extract_S cells training_genes of
        Inl e \<Rightarrow> Inl e
      | Inr S_mat \<Rightarrow>
     (case extract_G (adata_space c) training_genes of
        Inl e \<Rightarrow> Inl e
      | Inr G_mat \<Rightarrow>
     (if \<not> (any_axis0_all (length training_genes) S_mat
             \<and> any_axis0_all (length training_genes) G_mat) then
        Inl (ValueError ''Genes with all zero values detected. Run `pp_adatas()`.'')
      else
     (case resolve_density_prior (adata_space c) G_mat (density_prior c) of
        Inl e \<Rightarrow> Inl e
      | Inr p \<Rightarrow>
     (case torch_device env (device c) of
        Inl e \<Rightarrow> Inl e
      | Inr dev \<Rightarrow>
          Inr (cells, training_genes,
               \<lparr>kw_S = S_mat, kw_G = G_mat, kw_d = assign_d (mode c) G_mat (d c) p,
                kw_device = dev, kw_adata_map = adata_map c,
                kw_random_state = random_state c,
                kw_lambda_d = lambda_d c, kw_lambda_g1 = lambda_g1 c,
                kw_lambda_g2 = lambda_g2 c, kw_lambda_r = lambda_r c\<rparr>)))))))))"

text \<open>
  Lines 273--278: the score of a training gene, from its column of \<open>G\<close> and its column
  of the prediction.
\<close>

definition cos_sims :: "nat \<Rightarrow> mat \<Rightarrow> mat \<Rightarrow> npfloat list" where
  "cos_sims n G_mat G_predicted =
     map (\<lambda>(v1, v2). let norm_sq = linalg_norm v1 * linalg_norm v2
                      in true_divide (dot v1 v2) norm_sq)
         (zip (transpose_mat n G_mat) (transpose_mat n G_predicted))"

text \<open>
  \<^verbatim>\<open>sort_values(by="train_score", ascending=False)\<close>: descending, \<^verbatim>\<open>nan\<close> last. The
  order pandas gives to equal scores is not specified.
\<close>

fun comes_before :: "npfloat \<Rightarrow> npfloat \<Rightarrow> bool" where
  "comes_before x NaN = True"
| "comes_before NaN y = False"
| "comes_before PosInf y = True"
| "comes_before x PosInf = False"
| "comes_before x NegInf = True"
| "comes_before NegInf y = False"
| "comes_before (Fin a) (Fin b) = (b \<le> a)"

fun insort_desc :: "string \<times> npfloat \<Rightarrow> (string \<times> npfloat) list \<Rightarrow> (string \<times> npfloat) list" where
  "insort_desc x [] = [x]"
| "insort_desc x (y # ys) =
     (if comes_before (snd x) (snd y) then x # y # ys else y # insort_desc x ys)"

definition sort_values_desc :: "(string \<times> npfloat) list \<Rightarrow> (string \<times> npfloat) list" where
  "sort_values_desc rows = foldr insort_desc rows []"

text \<open>
  \<^verbatim>\<open>frame[column] = series\<close>: the series is aligned with the index of the frame. A
  series whose index is the frame's is stored as it is; otherwise its index must hold
  no label twice, and a label of the frame that the series lacks gets \<^verbatim>\<open>nan\<close>.
\<close>

definition reindex_for_setitem :: "string list \<Rightarrow> cell list \<Rightarrow> string list \<Rightarrow> py_error + cell list" where
  "reindex_for_setitem idx vals frame_idx =
     (if idx = frame_idx then Inr vals
      else if \<not> distinct idx then
        Inl (ValueError ''cannot reindex on an axis with duplicate labels'')
      else Inr (map (\<lambda>g. case map_of (zip idx vals) g of None \<Rightarrow> Num NaN | Some v \<Rightarrow> v)
                  frame_idx))"

text \<open>\<^verbatim>\<open>adata[:, genes].var.sparsity\<close>.\<close>

definition var_sparsity :: "adata \<Rightarrow> string list \<Rightarrow> py_error + cell list" where
  "var_sparsity ad genes =
     (case subset_var ad genes of
        Inl e \<Rightarrow> Inl e
      | Inr view \<Rightarrow>
          (case var view ''sparsity'' of
             None \<Rightarrow> Inl (AttributeError ''DataFrame'' ''sparsity'')
           | Some column \<Rightarrow> Inr column))"

text \<open>Subtraction of two columns with the same index.\<close>

fun np_subtract :: "npfloat \<Rightarrow> npfloat \<Rightarrow> npfloat" where
  "np_subtract (Fin a) (Fin b) = Fin (a - b)"
| "np_subtract NaN y = NaN"
| "np_subtract x NaN = NaN"
| "np_subtract PosInf PosInf = NaN"
| "np_subtract NegInf NegInf = NaN"
| "np_subtract PosInf y = PosInf"
| "np_subtract NegInf y = NegInf"
| "np_subtract x PosInf = NegInf"
| "np_subtract x NegInf = PosInf"

fun cell_subtract :: "cell \<times> cell \<Rightarrow> py_error + cell" where
  "cell_subtract (Num a, Num b) = Inr (Num (np_subtract a b))"
| "cell_subtract (x, y) = Inl (TypeError ''unsupported operand type(s) for -'')"

text \<open>The result: the mapping with its annotations.\<close>

record df_row =
  gene :: string
  train_score :: npfloat
  sparsity_sc :: cell
  sparsity_sp :: cell
  sparsity_diff :: cell

record 'h mapping =
  map_X :: mat
  map_obs :: "string \<rightharpoonup> cell list"
  map_var :: "string \<rightharpoonup> cell list"
  train_genes_df :: "df_row list"
  training_history :: 'h

text \<open>
  Lines 266--300. \<^verbatim>\<open>sc.AnnData\<close> refuses a matrix whose shape is not the number of
  cells by the number of spots. The changes that \<^verbatim>\<open>annotate_gene_sparsity\<close> makes to
  the caller's datasets are not part of the result.
\<close>

definition save_results ::
  "('m, 'h) env \<Rightarrow> adata \<Rightarrow> adata \<Rightarrow> string list \<Rightarrow> mat \<Rightarrow> mat \<Rightarrow> mat \<Rightarrow> 'h
     \<Rightarrow> py_error + 'h mapping" where
  "save_results env cells space training_genes S_mat G_mat mapping_matrix history =
     (case subset_var cells training_genes of
        Inl e \<Rightarrow> Inl e
      | Inr cells_view \<Rightarrow>
     (case subset_var space training_genes of
        Inl e \<Rightarrow> Inl e
      | Inr space_view \<Rightarrow>
     (if \<not> (length mapping_matrix = n_obs cells_view
             \<and> list_all (\<lambda>r. length r = n_obs space_view) mapping_matrix) then
        Inl (ValueError ''X needs to be of shape (n_obs, n_vars)'')
      else
     (let G_predicted = matmul (length training_genes)
                          (transpose_mat (n_obs space_view) mapping_matrix) S_mat;
          scores = cos_sims (length training_genes) G_mat G_predicted;
          df_cs = sort_values_desc (zip training_genes scores)
      in
     (case annotate_gene_sparsity env cells of
        Inl e \<Rightarrow> Inl e
      | Inr cells1 \<Rightarrow>
     (case annotate_gene_sparsity env space of
        Inl e \<Rightarrow> Inl e
      | Inr space1 \<Rightarrow>
     (case var_sparsity cells1 training_genes of
        Inl e \<Rightarrow> Inl e
      | Inr sc_values \<Rightarrow>
     (case reindex_for_setitem training_genes sc_values (map fst df_cs) of
        Inl e \<Rightarrow> Inl e
      | Inr sc_column \<Rightarrow>
     (case var_sparsity space1 training_genes of
        Inl e \<Rightarrow> Inl e
      | Inr sp_values \<Rightarrow>
     (case reindex_for_setitem training_genes sp_values (map fst df_cs) of
        Inl e \<Rightarrow> Inl e
      | Inr sp_column \<Rightarrow>
     (case map_err cell_subtract (zip sp_values sc_values) of
        Inl e \<Rightarrow> Inl e
      | Inr diff_values \<Rightarrow>
     (case reindex_for_setitem training_genes diff_values (map fst df_cs) of
        Inl e \<Rightarrow> Inl e
      | Inr diff_column \<Rightarrow>
          Inr \<lparr>map_X = mapping_matrix,
               map_obs = obs cells_view,
               map_var = obs space_view,
               train_genes_df =
                 map (\<lambda>i. \<lparr>gene = fst (df_cs ! i), train_score = snd (df_cs ! i),
                            sparsity_sc = sc_column ! i, sparsity_sp = sp_column ! i,
                            sparsity_diff = diff_column ! i\<rparr>)
                     [0..<length df_cs],
               training_history = history\<rparr>))))))))))))"

text \<open>
  The whole function (lines 105--300). Beside the outcome, the model records whether
  the optimizer was constructed and whether its training was started.
\<close>

datatype event = Mapper_constructed mapper_kwargs | Train_called train_kwargs

definition map_cells_to_space ::
  "('m, 'h) env \<Rightarrow> call \<Rightarrow> event list \<times> (py_error + 'h mapping)" where
  "map_cells_to_space env c =
     (case map_cells_to_space_setup env c of
        Inl e \<Rightarrow> ([], Inl e)
      | Inr (cells, training_genes, kw) \<Rightarrow>
     (case Mapper env kw of
        Inl e \<Rightarrow> ([Mapper_constructed kw], Inl e)
      | Inr mapper \<Rightarrow>
     (let print_each = (if verbose c then Some 100 else None);
          tkw = \<lparr>kw_learning_rate = learning_rate c, kw_num_epochs = num_epochs c,
                 kw_print_each = print_each, kw_experiment = comet_experiment c\<rparr>
      in
     (case train env mapper tkw of
        Inl e \<Rightarrow> ([Mapper_constructed kw, Train_called tkw], Inl e)
      | Inr (mapping_matrix, history) \<Rightarrow>
          ([Mapper_constructed kw, Train_called tkw],
           save_results env cells (adata_space c) training_genes (kw_S kw) (kw_G kw)
             mapping_matrix history)))))"

section \<open>Example datasets and calls\<close>

text \<open>
  Four cells and two spots over the genes \<open>a\<close> and \<open>b\<close>. The cells are stored sparsely
  and the spots densely. The example optimizer returns a fixed mapping, which sends
  the first cell to the first spot and the second cell to the second spot.
\<close>

definition ex_cells :: adata where
  "ex_cells =
     \<lparr>X = Csr [[1, 0], [0, 1], [2, 0], [0, 3]],
      obs = [''cluster'' \<mapsto> [Str ''A'', Str ''A'', Str ''B'', Str ''A'']],
      var_index = [''a'', ''b''],
      var = Map.empty,
      uns = [''training_genes'' \<mapsto> [''a'', ''b'']]\<rparr>"

definition ex_space :: adata where
  "ex_space =
     \<lparr>X = Ndarray [[3, 0], [4, 1]],
      obs = Map.empty,
      var_index = [''a'', ''b''],
      var = Map.empty,
      uns = [''training_genes'' \<mapsto> [''a'', ''b'']]\<rparr>"

definition ex_env :: "(unit, real list) env" where
  "ex_env =
     \<lparr>torch_device = (\<lambda>name. Inr name),
      Mapper = (\<lambda>kw. Inr ()),
      train = (\<lambda>m tkw. Inr ([[1, 0], [0, 1], [0, 0], [0, 0]], [])),
      annotate_gene_sparsity =
        (\<lambda>ad. Inr (ad\<lparr>var := (var ad)(''sparsity'' \<mapsto>
                                map (\<lambda>g. Num (Fin 0)) (var_index ad))\<rparr>))\<rparr>"

definition ex_call :: call where
  "ex_call =
     \<lparr>adata_cells = ex_cells, adata_space = ex_space, mode = ''cells'',
      adata_map = None, device = ''cpu'', learning_rate = 1 / 10, num_epochs = 1000,
      d = None, cluster_label = None, scale = True,
      lambda_d = 0, lambda_g1 = 1, lambda_g2 = 0, lambda_r = 0,
      random_state = None, verbose = True, density_prior = None,
      comet_experiment = None\<rparr>"

text \<open>The same cells stored as a dense array.\<close>

definition ex_cells_dense :: adata where
  "ex_cells_dense = ex_cells\<lparr>X := Ndarray [[1, 0], [0, 1], [2, 0], [0, 3]]\<rparr>"

text \<open>The same spots stored sparsely.\<close>

definition ex_space_sparse :: adata where
  "ex_space_sparse = ex_space\<lparr>X := Csc [[3, 0], [4, 1]]\<rparr>"

text \<open>Spots whose training genes are listed in another order.\<close>

definition ex_space_reordered :: adata where
  "ex_space_reordered = ex_space\<lparr>uns := [''training_genes'' \<mapsto> [''b'', ''a'']]\<rparr>"

text \<open>A dataset without spots and without genes, and a cell without genes.\<close>

definition ex_no_spots :: adata where
  "ex_no_spots =
     \<lparr>X = Ndarray [], obs = Map.empty, var_index = [], var = Map.empty,
      uns = [''training_genes'' \<mapsto> []]\<rparr>"

definition ex_no_genes :: adata where
  "ex_no_genes =
     \<lparr>X = Csr [[]], obs = Map.empty, var_index = [], var = Map.empty,
      uns = [''training_genes'' \<mapsto> []]\<rparr>"

text \<open>
  An optimizer for the two clusters of the example cells: its mapping sends the
  second cluster to the first spot.
\<close>

definition ex_env_clusters :: "(unit, real list) env" where
  "ex_env_clusters = ex_env\<lparr>train := (\<lambda>m tkw. Inr ([[0, 0], [1, 0]], []))\<rparr>"

text \<open>A clusters-mode call on the example cells, with no density prior.\<close>

definition ex_call_clusters :: call where
  "ex_call_clusters = ex_call\<lparr>mode := ''clusters'', cluster_label := Some ''cluster''\<rparr>"

text \<open>A call with the uniform density on the dataset without spots.\<close>

definition ex_call_no_spots :: call where
  "ex_call_no_spots =
     ex_call\<lparr>adata_cells := ex_no_genes, adata_space := ex_no_spots,
             density_prior := Some (Label ''uniform''), lambda_d := 1\<rparr>"

text \<open>A call with the density that \<^verbatim>\<open>pp_adatas\<close> computes from the example spots.\<close>

definition ex_call_rna :: call where
  "ex_call_rna =
     ex_call\<lparr>adata_cells := fst (pp_adatas (\<lambda>names. names) ex_cells ex_space None),
             adata_space := snd (pp_adatas (\<lambda>names. names) ex_cells ex_space None),
             density_prior := Some (Label ''rna_count_based''), lambda_d := 1\<rparr>"

section \<open>Reference notions\<close>

text \<open>
  The column-wise sum over the members of a cluster, and the number of its members,
  written over the row indices of the dataset.
\<close>

definition member_sum :: "adata \<Rightarrow> cell list \<Rightarrow> cell \<Rightarrow> nat \<Rightarrow> real" where
  "member_sum ad labels l j = (\<Sum>i | i < n_obs ad \<and> labels ! i = l. rows_of (X ad) ! i ! j)"

definition member_count :: "adata \<Rightarrow> cell list \<Rightarrow> cell \<Rightarrow> nat" where
  "member_count ad labels l = card {i. i < n_obs ad \<and> labels ! i = l}"

text \<open>
  A density over \<open>n\<close> spots: a vector of \<open>n\<close> finite numbers, none negative, that
  sum to 1.
\<close>

fun finite_value :: "npfloat \<Rightarrow> real option" where
  "finite_value (Fin x) = Some x"
| "finite_value v = None"

fun cell_number :: "cell \<Rightarrow> real option" where
  "cell_number (Num v) = finite_value v"
| "cell_number (Str s) = None"

fun density_values :: "prior \<Rightarrow> real list option" where
  "density_values (Array v) = those (map finite_value v)"
| "density_values (Series column) = those (map cell_number column)"
| "density_values (Label name) = None"

definition is_density :: "nat \<Rightarrow> prior option \<Rightarrow> bool" where
  "is_density n p =
     (case Option.bind p density_values of
        None \<Rightarrow> False
      | Some v \<Rightarrow> length v = n \<and> list_all (\<lambda>x. 0 \<le> x) v \<and> sum_list v = 1)"

text \<open>
  Cosine similarity: the dot product of two vectors divided by the product of their
  magnitudes. Column \<open>j\<close> of the observed matrix \<open>G\<close>, and column \<open>j\<close> of the matrix
  predicted from a mapping \<open>M\<close> of cells to spots and the expression \<open>S\<close> of the cells,
  whose entry for spot \<open>s\<close> is the sum over the cells \<open>k\<close> of \<open>M k s * S k j\<close>.
\<close>

definition cosine_similarity :: "real list \<Rightarrow> real list \<Rightarrow> npfloat" where
  "cosine_similarity u v =
     true_divide (\<Sum>i<length u. u ! i * v ! i)
       (sqrt (\<Sum>i<length u. (u ! i)\<^sup>2) * sqrt (\<Sum>i<length v. (v ! i)\<^sup>2))"

definition observed_column :: "mat \<Rightarrow> nat \<Rightarrow> real list" where
  "observed_column G_mat j = map (\<lambda>s. G_mat ! s ! j) [0..<length G_mat]"

definition predicted_column :: "mat \<Rightarrow> mat \<Rightarrow> nat \<Rightarrow> nat \<Rightarrow> real list" where
  "predicted_column M S_mat n_spots j =
     map (\<lambda>s. \<Sum>k<length S_mat. M ! k ! s * S_mat ! k ! j) [0..<n_spots]"

section \<open>Unfolding the model on concrete inputs\<close>

lemmas run_defs =
  map_cells_to_space_def map_cells_to_space_setup_def check_arguments_def cluster_cells_def
  get_training_genes_def extract_S_def extract_G_def subset_var_def take_at_def
  anndata_toarray_def any_axis0_all_def resolve_density_prior_def assign_d_def
  uniform_density_def true_divide_def Let_def

lemmas example_defs =
  ex_call_def ex_cells_def ex_space_def ex_env_def ex_cells_dense_def ex_space_sparse_def
  ex_space_reordered_def ex_no_spots_def ex_no_genes_def ex_call_clusters_def
  ex_call_no_spots_def ex_call_rna_def ex_env_clusters_def

lemmas pp_defs =
  pp_adatas_def filter_genes_def gene_subset_def number_per_gene_def keep_where_def
  lower_def lower_char_def sum_axis1_def n_vars_def

section \<open>Arrays and tables\<close>

lemma foldl_add_rows:
  "length acc = n \<Longrightarrow> list_all (\<lambda>r. length r = n) m \<Longrightarrow>
   length (foldl (\<lambda>acc r. map2 (+) acc r) acc m) = n \<and>
   (\<forall>j<n. foldl (\<lambda>acc r. map2 (+) acc r) acc m ! j = acc ! j + sum_list (map (\<lambda>r. r ! j) m))"
proof (induction m arbitrary: acc)
  case Nil
  then show ?case by simp
next
  case (Cons r m)
  then have len: "length (map2 (+) acc r) = n" by simp
  from Cons.prems have rest: "list_all (\<lambda>r. length r = n) m" by simp
  from Cons.IH [OF len rest] Cons.prems show ?case
    by (simp add: add.assoc)
qed

lemma length_sum_axis0: "list_all (\<lambda>r. length r = n) m \<Longrightarrow> length (sum_axis0 n m) = n"
  using foldl_add_rows [of "replicate n 0" n m] by (simp add: sum_axis0_def)

lemma sum_axis0_nth:
  "list_all (\<lambda>r. length r = n) m \<Longrightarrow> j < n \<Longrightarrow>
   sum_axis0 n m ! j = sum_list (map (\<lambda>r. r ! j) m)"
  using foldl_add_rows [of "replicate n 0" n m] by (simp add: sum_axis0_def)

lemma sum_axis0_eq:
  "list_all (\<lambda>r. length r = n) m \<Longrightarrow>
   sum_axis0 n m = map (\<lambda>j. sum_list (map (\<lambda>r. r ! j) m)) [0..<n]"
  by (rule nth_equalityI) (simp_all add: length_sum_axis0 sum_axis0_nth)

lemma select_rows_all: "list_all P m \<Longrightarrow> list_all P (select_rows flags m)"
  by (auto simp: select_rows_def list_all_iff dest: set_zip_rightD)

lemma sum_select_rows:
  assumes len: "length flags = length m"
  shows "sum_list (map f (select_rows flags m)) = (\<Sum>i | i < length m \<and> flags ! i. f (m ! i))"
proof -
  have "sum_list (map f (select_rows flags m))
      = sum_list (map (\<lambda>z. if fst z then f (snd z) else 0) (zip flags m))"
    by (simp add: select_rows_def sum_list_map_filter' comp_def)
  also have "\<dots> = (\<Sum>i = 0..<length m. if flags ! i then f (m ! i) else 0)"
    using len by (auto simp: sum_list_sum_nth intro!: sum.cong)
  also have "\<dots> = (\<Sum>i | i < length m \<and> flags ! i. f (m ! i))"
    by (simp add: sum.If_cases Int_def atLeast0LessThan lessThan_def)
  finally show ?thesis .
qed

lemma length_select_rows:
  assumes len: "length flags = length m"
  shows "length (select_rows flags m) = card {i. i < length m \<and> flags ! i}"
proof -
  have "length (select_rows flags m) = length (filter fst (zip flags m))"
    by (simp add: select_rows_def)
  also have "\<dots> = card {i. i < length (zip flags m) \<and> fst (zip flags m ! i)}"
    by (rule length_filter_conv_card)
  also have "{i. i < length (zip flags m) \<and> fst (zip flags m ! i)}
           = {i. i < length m \<and> flags ! i}"
    using len by auto
  finally show ?thesis .
qed

lemma set_pd_unique_aux:
  "set (foldl (\<lambda>acc x. if x \<in> set acc then acc else acc @ [x]) acc xs) = set acc \<union> set xs"
  by (induction xs arbitrary: acc) auto

lemma distinct_pd_unique_aux:
  "distinct acc \<Longrightarrow>
   distinct (foldl (\<lambda>acc x. if x \<in> set acc then acc else acc @ [x]) acc xs)"
  by (induction xs arbitrary: acc) auto

lemma set_pd_unique: "set (pd_unique xs) = set xs"
  by (simp add: pd_unique_def set_pd_unique_aux)

lemma distinct_pd_unique: "distinct (pd_unique xs)"
  by (simp add: pd_unique_def distinct_pd_unique_aux)

lemma value_counts_labels: "set (map fst (value_counts xs)) = set xs"
  by (simp add: value_counts_def Let_def comp_def set_pd_unique image_image)

lemma distinct_value_counts: "distinct (map fst (value_counts xs))"
proof -
  let ?cs = "map (\<lambda>x. (x, count_list xs x)) (pd_unique xs)"
  have inj: "inj_on fst (set ?cs)" by (auto simp: inj_on_def)
  have "distinct ?cs" using distinct_pd_unique [of xs] by (simp add: distinct_map inj_on_def)
  then have "distinct (sort_key (\<lambda>p. - int (snd p)) ?cs)" by simp
  then have "distinct (map fst (sort_key (\<lambda>p. - int (snd p)) ?cs))"
    using inj by (simp add: distinct_map)
  then show ?thesis by (simp add: value_counts_def Let_def comp_def)
qed

section \<open>Cluster expression\<close>

lemma cluster_row_eq:
  assumes wf: "wf_adata ad" and len: "length labels = n_obs ad"
  shows "cluster_row ad labels sc l =
     map (\<lambda>j. if sc then member_sum ad labels l j
               else member_sum ad labels l j / real (member_count ad labels l))
         [0..<n_vars ad]"
proof -
  let ?flags = "map (\<lambda>x. x = l) labels"
  let ?members = "select_rows ?flags (rows_of (X ad))"
  have lenf: "length ?flags = length (rows_of (X ad))"
    using len by (simp add: n_obs_def)
  have all: "list_all (\<lambda>r. length r = n_vars ad) ?members"
    using wf by (simp add: wf_adata_def select_rows_all)
  have idx: "{i. i < length (rows_of (X ad)) \<and> ?flags ! i} = {i. i < n_obs ad \<and> labels ! i = l}"
    using len by (auto simp: n_obs_def)
  have sums: "sum_list (map (\<lambda>r. r ! j) ?members) = member_sum ad labels l j" for j
    using sum_select_rows [OF lenf, of "\<lambda>r. r ! j"] by (simp add: idx member_sum_def)
  have count: "length ?members = member_count ad labels l"
    using length_select_rows [OF lenf] by (simp add: idx member_count_def)
  show ?thesis
    by (simp add: cluster_row_def Let_def mean_axis0_def sum_axis0_eq [OF all] sums count comp_def)
qed

text \<open>
  Claim C10. With \<^verbatim>\<open>scale\<close> true, \<^verbatim>\<open>adata_to_cluster_expression\<close> sets the row of
  each cluster to the column-wise sum of the rows of its members; the column-wise
  average is computed only when \<^verbatim>\<open>scale\<close> is false. There is one row per distinct
  label.
\<close>

theorem cluster_expression_sum_or_mean:
  assumes run: "adata_to_cluster_expression ad lab sc dens = Inr r"
      and wf: "wf_adata ad"
      and column: "obs ad lab = Some labels"
      and len: "length labels = n_obs ad"
  shows "X r = Ndarray (map (\<lambda>l. map (\<lambda>j. if sc then member_sum ad labels l j
                          else member_sum ad labels l j / real (member_count ad labels l))
                     [0..<n_vars ad])
               (map fst (value_counts labels)))
         \<and> distinct (map fst (value_counts labels))
         \<and> set (map fst (value_counts labels)) = set labels"
proof -
  from run column
  have "X r = Ndarray (map (cluster_row ad labels sc) (map fst (value_counts labels)))"
    by (auto simp: adata_to_cluster_expression_def Let_def split: if_splits sum.splits)
  then show ?thesis
    using cluster_row_eq [OF wf len] distinct_value_counts [of labels]
      value_counts_labels [of labels]
    by simp
qed

theorem cluster_expression_sum_or_mean_witness:
  "adata_to_cluster_expression ex_cells ''cluster'' True False
     = Inr (ex_cells\<lparr>X := Ndarray [[1, 4], [2, 0]],
                     obs := [''cluster'' \<mapsto> [Str ''A'', Str ''B'']]\<rparr>)
   \<and> wf_adata ex_cells
   \<and> obs ex_cells ''cluster'' = Some [Str ''A'', Str ''A'', Str ''B'', Str ''A'']
   \<and> length [Str ''A'', Str ''A'', Str ''B'', Str ''A''] = n_obs ex_cells
   \<and> [[member_sum ex_cells [Str ''A'', Str ''A'', Str ''B'', Str ''A''] (Str ''A'') 0,
        member_sum ex_cells [Str ''A'', Str ''A'', Str ''B'', Str ''A''] (Str ''A'') 1],
       [member_sum ex_cells [Str ''A'', Str ''A'', Str ''B'', Str ''A''] (Str ''B'') 0,
        member_sum ex_cells [Str ''A'', Str ''A'', Str ''B'', Str ''A''] (Str ''B'') 1]]
      = [[1, 4], [2, 0]]"
proof -
  let ?ls = "[Str ''A'', Str ''A'', Str ''B'', Str ''A'']"
  let ?sum = "ex_cells\<lparr>X := Ndarray [[1, 4], [2, 0]],
                      obs := [''cluster'' \<mapsto> [Str ''A'', Str ''B'']]\<rparr>"
  have vc: "value_counts ?ls = [(Str ''A'', 3 / 4), (Str ''B'', 1 / 4)]"
    by (simp add: value_counts_def pd_unique_def Let_def)
  have run: "adata_to_cluster_expression ex_cells ''cluster'' True False = Inr ?sum"
    by (simp add: adata_to_cluster_expression_def vc cluster_row_def select_rows_def
          sum_axis0_def ex_cells_def n_vars_def)
  have wf: "wf_adata ex_cells" by (simp add: wf_adata_def ex_cells_def n_vars_def)
  have column: "obs ex_cells ''cluster'' = Some ?ls" by (simp add: ex_cells_def)
  have len: "length ?ls = n_obs ex_cells" by (simp add: n_obs_def ex_cells_def)
  have nv: "n_vars ex_cells = 2" by (simp add: n_vars_def ex_cells_def)
  have upt: "[0..<2] = [0, Suc 0]" by (simp add: numeral_2_eq_2)
  from cluster_expression_sum_or_mean [OF run wf column len]
  have "[[member_sum ex_cells ?ls (Str ''A'') 0, member_sum ex_cells ?ls (Str ''A'') 1],
         [member_sum ex_cells ?ls (Str ''B'') 0, member_sum ex_cells ?ls (Str ''B'') 1]]
        = [[1, 4], [2, 0]]"
    by (simp add: vc nv upt)
  with run wf column len show ?thesis by simp
qed

lemma four_labels:
  assumes a: "count_list ls a = 3" and b: "count_list ls b = 1"
      and ab: "a \<noteq> b" and s: "set ls = {a, b}"
  shows "ls = [a, a, a, b] \<or> ls = [a, a, b, a] \<or> ls = [a, b, a, a] \<or> ls = [b, a, a, a]"
proof -
  have "sum (count_list ls) {a, b} = length ls"
    using s by (intro sum_count_set) auto
  then have "length ls = 4" using a b ab by simp
  then obtain w x y z where ls: "ls = [w, x, y, z]"
    by (auto simp: length_Suc_conv numeral_eq_Suc)
  with s have "w \<in> {a, b}" "x \<in> {a, b}" "y \<in> {a, b}" "z \<in> {a, b}" by auto
  with a b ab ls show ?thesis by (auto split: if_splits)
qed

lemma value_counts_three_one:
  assumes a: "count_list ls a = 3" and b: "count_list ls b = 1"
      and ab: "a \<noteq> b" and s: "set ls = {a, b}"
  shows "value_counts ls = [(a, 3 / 4), (b, 1 / 4)]"
  using four_labels [OF a b ab s] ab
  by (auto simp: value_counts_def pd_unique_def Let_def)

text \<open>
  Claim C2. When the cluster-label column takes exactly two values, \<open>a\<close> on three
  rows and \<open>b\<close> on one row, \<^verbatim>\<open>adata_to_cluster_expression\<close> with \<^verbatim>\<open>add_density\<close>
  returns a dataset with exactly two rows, the first for \<open>a\<close> and the second for \<open>b\<close>,
  whose \<^verbatim>\<open>cluster_density\<close> column holds 0.75 for \<open>a\<close> and 0.25 for \<open>b\<close>.
\<close>

theorem cluster_density_three_to_one:
  assumes column: "obs ad lab = Some ls"
      and a: "count_list ls a = 3" and b: "count_list ls b = 1"
      and ab: "a \<noteq> b" and s: "set ls = {a, b}"
  shows "\<exists>r. adata_to_cluster_expression ad lab sc True = Inr r
           \<and> n_obs r = 2
           \<and> rows_of (X r) = [cluster_row ad ls sc a, cluster_row ad ls sc b]
           \<and> obs r ''cluster_density'' = Some [Num (Fin (3 / 4)), Num (Fin (1 / 4))]
           \<and> (lab \<noteq> ''cluster_density'' \<longrightarrow> obs r lab = Some [a, b])"
  using column ab
  by (simp add: adata_to_cluster_expression_def value_counts_three_one [OF a b ab s] Let_def
        series_get_def n_obs_def)

theorem cluster_density_three_to_one_witness:
  "obs ex_cells ''cluster'' = Some [Str ''A'', Str ''A'', Str ''B'', Str ''A'']
   \<and> count_list [Str ''A'', Str ''A'', Str ''B'', Str ''A''] (Str ''A'') = 3
   \<and> count_list [Str ''A'', Str ''A'', Str ''B'', Str ''A''] (Str ''B'') = 1
   \<and> set [Str ''A'', Str ''A'', Str ''B'', Str ''A''] = {Str ''A'', Str ''B''}
   \<and> (\<exists>r. adata_to_cluster_expression ex_cells ''cluster'' True True = Inr r
           \<and> n_obs r = 2
           \<and> rows_of (X r) = [[1, 4], [2, 0]]
           \<and> obs r ''cluster_density'' = Some [Num (Fin (3 / 4)), Num (Fin (1 / 4))]
           \<and> obs r ''cluster'' = Some [Str ''A'', Str ''B''])"
proof -
  let ?ls = "[Str ''A'', Str ''A'', Str ''B'', Str ''A'']"
  have h1: "obs ex_cells ''cluster'' = Some ?ls" by (simp add: ex_cells_def)
  have h2: "count_list ?ls (Str ''A'') = 3" by simp
  have h3: "count_list ?ls (Str ''B'') = 1" by simp
  have h4: "Str ''A'' \<noteq> Str ''B''" by simp
  have h5: "set ?ls = {Str ''A'', Str ''B''}" by auto
  have rowA: "cluster_row ex_cells ?ls True (Str ''A'') = [1, 4]"
    by (simp add: cluster_row_def select_rows_def sum_axis0_def ex_cells_def n_vars_def)
  have rowB: "cluster_row ex_cells ?ls True (Str ''B'') = [2, 0]"
    by (simp add: cluster_row_def select_rows_def sum_axis0_def ex_cells_def n_vars_def)
  from cluster_density_three_to_one [OF h1 h2 h3 h4 h5, of True] h1 h2 h3 h5 rowA rowB
  show ?thesis by auto
qed

section \<open>Argument checks\<close>

text \<open>
  Claim C4. A call with \<^verbatim>\<open>lambda_g1 == 0\<close> raises a \<^verbatim>\<open>ValueError\<close> before the
  optimizer is constructed or trained, and produces no mapping.
\<close>

theorem lambda_g1_zero_rejected:
  "lambda_g1 c = 0 \<Longrightarrow>
   map_cells_to_space env c = ([], Inl (ValueError ''lambda_g1 cannot be 0.''))"
  by (simp add: map_cells_to_space_def map_cells_to_space_setup_def check_arguments_def)

theorem lambda_g1_zero_rejected_witness:
  "lambda_g1 (ex_call\<lparr>lambda_g1 := 0\<rparr>) = 0
   \<and> map_cells_to_space ex_env (ex_call\<lparr>lambda_g1 := 0\<rparr>)
       = ([], Inl (ValueError ''lambda_g1 cannot be 0.''))"
  using lambda_g1_zero_rejected [of "ex_call\<lparr>lambda_g1 := 0\<rparr>" ex_env] by simp

text \<open>
  Claim C5. A call whose \<^verbatim>\<open>density_prior\<close> is not \<^verbatim>\<open>None\<close> while
  \<^verbatim>\<open>lambda_d == 0\<close> raises a \<^verbatim>\<open>ValueError\<close> before the optimizer is constructed or
  trained, and produces no mapping.
\<close>

theorem density_prior_needs_lambda_d:
  assumes "density_prior c \<noteq> None" and "lambda_d c = 0"
  shows "map_cells_to_space env c =
     ([], Inl (ValueError (if lambda_g1 c = 0 then ''lambda_g1 cannot be 0.''
                           else ''When density_prior is not None, lambda_d cannot be 0.'')))"
  using assms
  by (simp add: map_cells_to_space_def map_cells_to_space_setup_def check_arguments_def)

theorem density_prior_needs_lambda_d_witness:
  "density_prior (ex_call\<lparr>density_prior := Some (Label ''uniform'')\<rparr>) \<noteq> None
   \<and> lambda_d (ex_call\<lparr>density_prior := Some (Label ''uniform'')\<rparr>) = 0
   \<and> map_cells_to_space ex_env (ex_call\<lparr>density_prior := Some (Label ''uniform'')\<rparr>)
       = ([], Inl (ValueError ''When density_prior is not None, lambda_d cannot be 0.''))"
proof -
  let ?c = "ex_call\<lparr>density_prior := Some (Label ''uniform'')\<rparr>"
  have p: "density_prior ?c \<noteq> None" by simp
  have l: "lambda_d ?c = 0" by (simp add: ex_call_def)
  have g: "lambda_g1 ?c \<noteq> 0" by (simp add: ex_call_def)
  from density_prior_needs_lambda_d [OF p l, of ex_env] p l g show ?thesis by simp
qed

text \<open>
  Claim C8. The value passed as \<^verbatim>\<open>d\<close> never influences the call: events, keyword
  arguments of the optimizer and outcome are the same for every value of \<^verbatim>\<open>d\<close>.
\<close>

lemma setup_ignores_d:
  "map_cells_to_space_setup env (c\<lparr>d := v\<rparr>) = map_cells_to_space_setup env c"
  by (simp add: map_cells_to_space_setup_def check_arguments_def cluster_cells_def assign_d_def
        split: option.splits sum.splits)

theorem d_argument_ignored:
  "map_cells_to_space env (c\<lparr>d := v\<rparr>) = map_cells_to_space env c"
  by (simp add: map_cells_to_space_def setup_ignores_d Let_def cong: sum.case_cong prod.case_cong)

section \<open>Training genes\<close>

lemma cluster_expression_uns:
  "adata_to_cluster_expression ad l s b = Inr r \<Longrightarrow> uns r = uns ad"
  by (auto simp: adata_to_cluster_expression_def Let_def split: option.splits sum.splits if_splits)

lemma cluster_cells_uns: "cluster_cells c = Inr cells \<Longrightarrow> uns cells = uns (adata_cells c)"
  by (auto simp: cluster_cells_def cluster_expression_uns split: if_splits option.splits)

text \<open>
  Claim C6, as stated, fails: when both datasets carry training genes and the two
  lists differ, the call stops on a bare assertion, whose error carries no message.
\<close>

theorem mismatched_genes_no_message:
  "uns (adata_cells (ex_call\<lparr>adata_space := ex_space_reordered\<rparr>)) ''training_genes''
     \<noteq> uns (adata_space (ex_call\<lparr>adata_space := ex_space_reordered\<rparr>)) ''training_genes''
   \<and> map_cells_to_space ex_env (ex_call\<lparr>adata_space := ex_space_reordered\<rparr>)
       = ([], Inl AssertionError)
   \<and> error_message AssertionError = []"
  by (simp add: run_defs example_defs)

text \<open>
  Claim C6, amended. When the training genes are missing from either dataset or the
  two lists differ, the call stops before the optimizer is constructed. Unless an
  earlier check or the clustering has already failed, missing training genes raise a
  \<^verbatim>\<open>ValueError\<close> with the message ``Missing tangram parameters. Run `pp_adatas()`.'',
  and differing lists raise an \<^verbatim>\<open>AssertionError\<close>.
\<close>

theorem training_genes_checked:
  assumes "uns (adata_cells c) ''training_genes'' = None
         \<or> uns (adata_space c) ''training_genes'' = None
         \<or> uns (adata_cells c) ''training_genes'' \<noteq> uns (adata_space c) ''training_genes''"
  shows "map_cells_to_space env c =
     ([], Inl (case check_arguments c of
                 Some e \<Rightarrow> e
               | None \<Rightarrow>
                  (case cluster_cells c of
                     Inl e \<Rightarrow> e
                   | Inr cells \<Rightarrow>
                       if uns (adata_cells c) ''training_genes'' = None
                          \<or> uns (adata_space c) ''training_genes'' = None
                       then ValueError ''Missing tangram parameters. Run `pp_adatas()`.''
                       else AssertionError)))"
  using assms
  by (auto simp: map_cells_to_space_def map_cells_to_space_setup_def get_training_genes_def
        dest!: cluster_cells_uns split: option.splits sum.splits)

theorem training_genes_checked_witness:
  "uns (adata_space (ex_call\<lparr>adata_space := ex_space\<lparr>uns := Map.empty\<rparr>\<rparr>)) ''training_genes'' = None
   \<and> map_cells_to_space ex_env (ex_call\<lparr>adata_space := ex_space\<lparr>uns := Map.empty\<rparr>\<rparr>)
       = ([], Inl (ValueError ''Missing tangram parameters. Run `pp_adatas()`.''))"
proof -
  let ?c = "ex_call\<lparr>adata_space := ex_space\<lparr>uns := Map.empty\<rparr>\<rparr>"
  have missing: "uns (adata_space ?c) ''training_genes'' = None" by simp
  have checks: "check_arguments ?c = None" by (simp add: check_arguments_def ex_call_def)
  have cells: "cluster_cells ?c = Inr ex_cells" by (simp add: cluster_cells_def ex_call_def)
  from training_genes_checked [of ?c ex_env] missing
  have "map_cells_to_space ex_env ?c =
     ([], Inl (case check_arguments ?c of
                 Some e \<Rightarrow> e
               | None \<Rightarrow>
                  (case cluster_cells ?c of
                     Inl e \<Rightarrow> e
                   | Inr cells \<Rightarrow>
                       if uns (adata_cells ?c) ''training_genes'' = None
                          \<or> uns (adata_space ?c) ''training_genes'' = None
                       then ValueError ''Missing tangram parameters. Run `pp_adatas()`.''
                       else AssertionError)))"
    by blast
  then show ?thesis by (simp add: checks cells)
qed

section \<open>Matrix extraction\<close>

lemma rows_of_map_storage [simp]: "rows_of (map_storage f s) = f (rows_of s)"
  by (cases s) simp_all

lemma is_ndarray_map_storage [simp]: "is_ndarray (map_storage f s) = is_ndarray s"
  by (cases s) simp_all

lemma subset_var_errors:
  "subset_var ad genes = Inl e \<Longrightarrow> e \<noteq> NotImplementedError"
  by (auto simp: subset_var_def Let_def split: if_splits)

lemma subset_var_storage:
  "subset_var ad genes = Inr view \<Longrightarrow>
   is_csc (X view) = is_csc (X ad) \<and> is_csr (X view) = is_csr (X ad)
   \<and> is_ndarray (X view) = is_ndarray (X ad)"
  by (cases "X ad") (auto simp: subset_var_def Let_def split: if_splits)

lemma toarray_recognised:
  "is_csc s \<or> is_csr s \<or> is_ndarray s \<Longrightarrow> toarray s = Inr (rows_of s)"
  by (cases s) simp_all

lemma extract_S_unrecognised:
  "extract_S cells genes = Inl NotImplementedError
   \<longleftrightarrow> \<not> (is_csc (X cells) \<or> is_csr (X cells) \<or> is_ndarray (X cells))"
  by (auto simp: extract_S_def toarray_recognised dest: subset_var_errors subset_var_storage
           split: sum.splits)

lemma extract_S_recognised:
  assumes "is_csc (X cells) \<or> is_csr (X cells) \<or> is_ndarray (X cells)"
      and "subset_var cells genes = Inr view"
  shows "extract_S cells genes = Inr (rows_of (X view))"
  using assms subset_var_storage [OF assms(2)]
  by (auto simp: extract_S_def toarray_recognised)

lemma extract_G_unrecognised:
  "extract_G space genes = Inl NotImplementedError
   \<longleftrightarrow> \<not> (is_csc (X space) \<or> is_csr (X space) \<or> is_ndarray (X space))"
  by (auto simp: extract_G_def anndata_toarray_def dest: subset_var_errors split: sum.splits)

lemma extract_G_sparse:
  assumes "is_csc (X space) \<or> is_csr (X space)" and "subset_var space genes = Inr view"
  shows "extract_G space genes = Inl (AttributeError ''AnnData'' ''toarray'')"
  using assms by (auto simp: extract_G_def anndata_toarray_def)

text \<open>
  Claim C1 says that a dataset whose matrix is in one of the three recognised storage
  classes is extracted without error. On the example call with the spots stored as a
  \<^verbatim>\<open>csc_matrix\<close>, the call stops with an \<^verbatim>\<open>AttributeError\<close>: the sparse branch for
  \<open>G\<close> (line 184) calls \<^verbatim>\<open>.toarray()\<close> on the view, an AnnData, and not on its
  \<^verbatim>\<open>.X\<close>.
\<close>

theorem sparse_spots_not_extracted:
  "is_csc (X (adata_space (ex_call\<lparr>adata_space := ex_space_sparse\<rparr>)))
   \<and> map_cells_to_space ex_env (ex_call\<lparr>adata_space := ex_space_sparse\<rparr>)
       = ([], Inl (AttributeError ''AnnData'' ''toarray''))
   \<and> error_message (AttributeError ''AnnData'' ''toarray'')
       = CHR 0x27 # ''AnnData'' @ CHR 0x27 # '' object has no attribute ''
           @ CHR 0x27 # ''toarray'' @ [CHR 0x27]"
  by (simp add: run_defs example_defs)

text \<open>Cells stored as a dense array are extracted, and the optimizer is reached.\<close>

lemma dense_cells_extracted:
  "fst (map_cells_to_space ex_env (ex_call\<lparr>adata_cells := ex_cells_dense\<rparr>)) =
     [Mapper_constructed
        \<lparr>kw_S = [[1, 0], [0, 1], [2, 0], [0, 3]], kw_G = [[3, 0], [4, 1]], kw_d = None,
         kw_device = ''cpu'', kw_adata_map = None, kw_random_state = None,
         kw_lambda_d = 0, kw_lambda_g1 = 1, kw_lambda_g2 = 0, kw_lambda_r = 0\<rparr>,
      Train_called
        \<lparr>kw_learning_rate = 1 / 10, kw_num_epochs = 1000, kw_print_each = Some 100,
         kw_experiment = None\<rparr>]"
  by (simp add: run_defs example_defs)

section \<open>The density handed to the optimizer\<close>

lemma subset_var_n_obs: "subset_var ad genes = Inr view \<Longrightarrow> n_obs view = n_obs ad"
  by (auto simp: subset_var_def n_obs_def Let_def split: if_splits)

lemma extract_G_length: "extract_G space genes = Inr G_mat \<Longrightarrow> length G_mat = n_obs space"
  by (auto simp: extract_G_def anndata_toarray_def n_obs_def[symmetric] subset_var_n_obs
           split: if_splits sum.splits)

lemma setup_parts:
  assumes "map_cells_to_space_setup env c = Inr (cells, genes, kw)"
  shows "check_arguments c = None \<and> cluster_cells c = Inr cells
       \<and> get_training_genes cells (adata_space c) = Inr genes
       \<and> extract_S cells genes = Inr (kw_S kw)
       \<and> extract_G (adata_space c) genes = Inr (kw_G kw)
       \<and> (\<exists>p. resolve_density_prior (adata_space c) (kw_G kw) (density_prior c) = Inr p
              \<and> kw_d kw = assign_d (mode c) (kw_G kw) (d c) p)"
  using assms
  by (auto simp: map_cells_to_space_setup_def split: option.splits sum.splits if_splits)

lemma checked_mode: "check_arguments c = None \<Longrightarrow> mode c = ''cells'' \<or> mode c = ''clusters''"
  by (auto simp: check_arguments_def split: if_splits)

lemma assign_d_given:
  "md = ''cells'' \<or> md = ''clusters'' \<Longrightarrow> assign_d md G_mat d0 (Some v) = Some v"
  by (auto simp: assign_d_def)

lemma those_map_Some: "those (map (\<lambda>x. Some (f x)) xs) = Some (map f xs)"
  by (induction xs) simp_all

lemma those_replicate: "those (replicate n (Some x)) = Some (replicate n x)"
  by (induction n) simp_all

lemma uniform_is_density:
  assumes "0 < length G_mat"
  shows "is_density (length G_mat) (Some (uniform_density G_mat))"
proof -
  let ?n = "length G_mat"
  have v: "map (\<lambda>one. true_divide one (real ?n)) (replicate ?n 1) = map (\<lambda>one. Fin (one / real ?n)) (replicate ?n 1)"
    using assms by (simp add: true_divide_def)
  have "density_values (uniform_density G_mat) = Some (replicate ?n (1 / real ?n))"
    unfolding uniform_density_def v by (simp add: those_replicate)
  then show ?thesis using assms
    by (simp add: is_density_def list_all_iff sum_list_replicate)
qed

lemma sum_list_keep_where:
  "length flags = length row \<Longrightarrow> (\<forall>j<length row. \<not> flags ! j \<longrightarrow> row ! j = 0) \<Longrightarrow>
   sum_list (keep_where flags row) = sum_list (row :: real list)"
proof (induction flags row rule: list_induct2)
  case Nil
  then show ?case by (simp add: keep_where_def)
next
  case (Cons f flags x row)
  from Cons.prems have rest: "\<forall>j<length row. \<not> flags ! j \<longrightarrow> row ! j = 0" by fastforce
  from Cons.prems have head: "\<not> f \<longrightarrow> x = 0" by fastforce
  from Cons.IH [OF rest] head show ?case by (simp add: keep_where_def)
qed

lemma sum_list_scaled: "sum_list (map (\<lambda>k. k / t) ks) = sum_list ks / (t :: real)"
  by (induction ks) (simp_all add: add_divide_distrib)

lemma kept_row_sum:
  assumes wf: "wf_adata ad"
      and nonneg: "list_all (list_all (\<lambda>x. 0 \<le> x)) (rows_of (X ad))"
      and row: "row \<in> set (rows_of (X ad))"
  shows "sum_list (keep_where (gene_subset ad) row) = sum_list row"
proof -
  from wf row have len: "length row = n_vars ad" by (simp add: wf_adata_def list_all_iff)
  then have flags: "length (gene_subset ad) = length row"
    by (simp add: gene_subset_def number_per_gene_def)
  have zero: "\<forall>j<length row. \<not> gene_subset ad ! j \<longrightarrow> row ! j = 0"
  proof (intro allI impI)
    fix j
    assume j: "j < length row" and off: "\<not> gene_subset ad ! j"
    from j len off have "length (filter (\<lambda>r. 0 < r ! j) (rows_of (X ad))) = 0"
      by (simp add: gene_subset_def number_per_gene_def not_less_eq_eq)
    then have "filter (\<lambda>r. 0 < r ! j) (rows_of (X ad)) = []" by simp
    with row have "\<not> 0 < row ! j" by (auto simp: filter_empty_conv)
    moreover from nonneg row j have "0 \<le> row ! j" by (auto simp: list_all_iff)
    ultimately show "row ! j = 0" by simp
  qed
  from flags zero show ?thesis by (rule sum_list_keep_where)
qed

lemma filter_genes_sum_axis1:
  assumes "wf_adata ad" and "list_all (list_all (\<lambda>x. 0 \<le> x)) (rows_of (X ad))"
  shows "sum_axis1 (rows_of (X (filter_genes ad))) = sum_axis1 (rows_of (X ad))"
  using kept_row_sum [OF assms] by (simp add: filter_genes_def sum_axis1_def)

lemma filter_genes_obs: "obs (filter_genes ad) = obs ad"
  by (simp add: filter_genes_def)

lemma pp_adatas_density:
  assumes keep: "\<forall>names. length (mk names) = length names"
      and wf: "wf_adata sp"
      and nonneg: "list_all (list_all (\<lambda>x. 0 \<le> x)) (rows_of (X sp))"
  shows "obs (snd (pp_adatas mk sc sp gs)) ''rna_count_based_density'' =
           Some (map (\<lambda>k. Num (true_divide k (sum_list (map sum_list (rows_of (X sp))))))
                   (map sum_list (rows_of (X sp))))
         \<and> n_obs (snd (pp_adatas mk sc sp gs)) = n_obs sp"
proof -
  let ?sp2 = "sp\<lparr>var_index := mk (map lower (var_index sp))\<rparr>"
  from keep wf have wf2: "wf_adata ?sp2" by (simp add: wf_adata_def n_vars_def)
  from nonneg have nonneg2: "list_all (list_all (\<lambda>x. 0 \<le> x)) (rows_of (X ?sp2))" by simp
  have sums: "sum_axis1 (rows_of (X (filter_genes ?sp2))) = map sum_list (rows_of (X sp))"
    using filter_genes_sum_axis1 [OF wf2 nonneg2] by (simp add: sum_axis1_def)
  have rows: "length (rows_of (X (filter_genes ?sp2))) = length (rows_of (X sp))"
    by (simp add: filter_genes_def)
  show ?thesis
    by (simp add: pp_adatas_def Let_def sums rows n_obs_def)
qed

lemma rna_is_density:
  assumes nonneg: "list_all (list_all (\<lambda>x. 0 \<le> x)) rows"
      and total: "0 < sum_list (map sum_list rows)"
  shows "is_density (length rows)
           (Some (Series (map (\<lambda>k. Num (true_divide k (sum_list (map sum_list rows))))
                            (map sum_list rows))))"
proof -
  let ?t = "sum_list (map sum_list rows)"
  from total have cells: "map (\<lambda>k. Num (true_divide k ?t)) (map sum_list rows)
                        = map (\<lambda>k. Num (Fin (k / ?t))) (map sum_list rows)"
    by (simp add: true_divide_def)
  have vals: "density_values (Series (map (\<lambda>k. Num (true_divide k ?t)) (map sum_list rows)))
            = Some (map (\<lambda>k. k / ?t) (map sum_list rows))"
    unfolding cells by (simp add: comp_def those_map_Some)
  have pos: "list_all (\<lambda>x. 0 \<le> x) (map (\<lambda>k. k / ?t) (map sum_list rows))"
    using nonneg total by (auto simp: list_all_iff intro!: divide_nonneg_pos sum_list_nonneg)
  have one: "sum_list (map (\<lambda>k. k / ?t) (map sum_list rows)) = 1"
    using total sum_list_scaled [of ?t "map sum_list rows"] by simp
  from vals pos one show ?thesis by (simp add: is_density_def)
qed

lemma optimizer_arguments:
  assumes "Mapper_constructed kw \<in> set (fst (map_cells_to_space env c))"
  shows "\<exists>cells genes. map_cells_to_space_setup env c = Inr (cells, genes, kw)"
  using assms
  by (auto simp: map_cells_to_space_def Let_def split: sum.splits prod.splits)

text \<open>
  Claim C3, as stated, fails: on a spatial dataset without spots and without training
  genes, the uniform density handed to the optimizer is the empty vector, whose sum
  is 0.
\<close>

theorem uniform_density_without_spots:
  "density_prior ex_call_no_spots = Some (Label ''uniform'')
   \<and> fst (map_cells_to_space ex_env ex_call_no_spots) =
       [Mapper_constructed
          \<lparr>kw_S = [[]], kw_G = [], kw_d = Some (Array []), kw_device = ''cpu'',
           kw_adata_map = None, kw_random_state = None, kw_lambda_d = 1, kw_lambda_g1 = 1,
           kw_lambda_g2 = 0, kw_lambda_r = 0\<rparr>,
        Train_called
          \<lparr>kw_learning_rate = 1 / 10, kw_num_epochs = 1000, kw_print_each = Some 100,
           kw_experiment = None\<rparr>]
   \<and> n_obs (adata_space ex_call_no_spots) = 0
   \<and> density_values (Array []) = Some []
   \<and> sum_list ([] :: real list) = 0
   \<and> \<not> is_density (n_obs (adata_space ex_call_no_spots)) (Some (Array []))"
  by (simp add: run_defs example_defs is_density_def n_obs_def)

text \<open>
  Claim C3, amended. In every run that reaches the optimizer with \<^verbatim>\<open>density_prior\<close>
  \<^verbatim>\<open>"uniform"\<close> on a spatial dataset with at least one spot, or with
  \<^verbatim>\<open>"rna_count_based"\<close> after \<^verbatim>\<open>pp_adatas\<close> has been run on a spatial dataset whose
  expression is entrywise non-negative with a positive total, the density handed
  to the optimizer has one entry per spot, is entrywise non-negative and sums to 1.
  The library function that makes gene names unique is assumed to keep their number.
\<close>

theorem density_handed_to_optimizer:
  assumes run: "Mapper_constructed kw \<in> set (fst (map_cells_to_space env c))"
      and prior:
        "density_prior c = Some (Label ''uniform'') \<and> 0 < n_obs (adata_space c)
         \<or> density_prior c = Some (Label ''rna_count_based'')
           \<and> adata_space c = snd (pp_adatas make_unique sc_in sp_in gs)
           \<and> (\<forall>names. length (make_unique names) = length names)
           \<and> wf_adata sp_in
           \<and> list_all (list_all (\<lambda>x. 0 \<le> x)) (rows_of (X sp_in))
           \<and> 0 < sum_list (map sum_list (rows_of (X sp_in)))"
  shows "length (kw_G kw) = n_obs (adata_space c)
       \<and> is_density (n_obs (adata_space c)) (kw_d kw)"
proof -
  from optimizer_arguments [OF run] obtain cells genes
    where prep: "map_cells_to_space_setup env c = Inr (cells, genes, kw)" by blast
  from setup_parts [OF prep] obtain p
    where checks: "check_arguments c = None"
      and G: "extract_G (adata_space c) genes = Inr (kw_G kw)"
      and p: "resolve_density_prior (adata_space c) (kw_G kw) (density_prior c) = Inr p"
      and d: "kw_d kw = assign_d (mode c) (kw_G kw) (d c) p"
    by blast
  from G have len: "length (kw_G kw) = n_obs (adata_space c)" by (rule extract_G_length)
  note md = checked_mode [OF checks]
  from prior show ?thesis
  proof (elim disjE conjE)
    assume "density_prior c = Some (Label ''uniform'')" and spots: "0 < n_obs (adata_space c)"
    with p have "p = Some (uniform_density (kw_G kw))"
      by (simp add: resolve_density_prior_def)
    with d md have "kw_d kw = Some (uniform_density (kw_G kw))"
      by (simp add: assign_d_given)
    with uniform_is_density [of "kw_G kw"] spots len show ?thesis by simp
  next
    assume rna: "density_prior c = Some (Label ''rna_count_based'')"
       and sp: "adata_space c = snd (pp_adatas make_unique sc_in sp_in gs)"
       and keep: "\<forall>names. length (make_unique names) = length names"
       and wf: "wf_adata sp_in"
       and nonneg: "list_all (list_all (\<lambda>x. 0 \<le> x)) (rows_of (X sp_in))"
       and total: "0 < sum_list (map sum_list (rows_of (X sp_in)))"
    let ?column = "map (\<lambda>k. Num (true_divide k (sum_list (map sum_list (rows_of (X sp_in))))))
                     (map sum_list (rows_of (X sp_in)))"
    from pp_adatas_density [OF keep wf nonneg, of sc_in gs] sp
    have column: "obs (adata_space c) ''rna_count_based_density'' = Some ?column"
      and spots: "n_obs (adata_space c) = n_obs sp_in"
      by simp_all
    from p rna column have "p = Some (Series ?column)"
      by (simp add: resolve_density_prior_def)
    with d md have "kw_d kw = Some (Series ?column)"
      by (simp add: assign_d_given)
    with rna_is_density [OF nonneg total] spots len show ?thesis
      by (simp add: n_obs_def)
  qed
qed

theorem density_handed_to_optimizer_witness:
  "(\<exists>kw. Mapper_constructed kw \<in> set (fst (map_cells_to_space ex_env ex_call_rna))
        \<and> density_prior ex_call_rna = Some (Label ''rna_count_based'')
        \<and> adata_space ex_call_rna = snd (pp_adatas (\<lambda>names. names) ex_cells ex_space None)
        \<and> wf_adata ex_space
        \<and> list_all (list_all (\<lambda>x. 0 \<le> x)) (rows_of (X ex_space))
        \<and> 0 < sum_list (map sum_list (rows_of (X ex_space)))
        \<and> kw_d kw = Some (Series [Num (Fin (3 / 8)), Num (Fin (5 / 8))])
        \<and> length (kw_G kw) = n_obs (adata_space ex_call_rna)
        \<and> is_density (n_obs (adata_space ex_call_rna)) (kw_d kw))
   \<and> (\<exists>kw. Mapper_constructed kw
              \<in> set (fst (map_cells_to_space ex_env
                    (ex_call\<lparr>density_prior := Some (Label ''uniform''), lambda_d := 1\<rparr>)))
        \<and> 0 < n_obs (adata_space (ex_call\<lparr>density_prior := Some (Label ''uniform''), lambda_d := 1\<rparr>))
        \<and> kw_d kw = Some (Array [Fin (1 / 2), Fin (1 / 2)])
        \<and> is_density 2 (kw_d kw))"
proof -
  let ?K = "\<lparr>kw_S = [[1, 0], [0, 1], [2, 0], [0, 3]], kw_G = [[3, 0], [4, 1]],
             kw_d = Some (Series [Num (Fin (3 / 8)), Num (Fin (5 / 8))]), kw_device = ''cpu'',
             kw_adata_map = None, kw_random_state = None, kw_lambda_d = 1, kw_lambda_g1 = 1,
             kw_lambda_g2 = 0, kw_lambda_r = 0\<rparr>"
  let ?U = "\<lparr>kw_S = [[1, 0], [0, 1], [2, 0], [0, 3]], kw_G = [[3, 0], [4, 1]],
             kw_d = Some (Array [Fin (1 / 2), Fin (1 / 2)]), kw_device = ''cpu'',
             kw_adata_map = None, kw_random_state = None, kw_lambda_d = 1, kw_lambda_g1 = 1,
             kw_lambda_g2 = 0, kw_lambda_r = 0\<rparr>"
  let ?T = "\<lparr>kw_learning_rate = 1 / 10, kw_num_epochs = 1000, kw_print_each = Some 100,
             kw_experiment = None\<rparr>"
  let ?cu = "ex_call\<lparr>density_prior := Some (Label ''uniform''), lambda_d := 1\<rparr>"
  have "fst (map_cells_to_space ex_env ex_call_rna) = [Mapper_constructed ?K, Train_called ?T]"
    by (simp add: run_defs pp_defs example_defs del: set_filter set_map)
  then have run: "Mapper_constructed ?K \<in> set (fst (map_cells_to_space ex_env ex_call_rna))"
    by simp
  have rna: "density_prior ex_call_rna = Some (Label ''rna_count_based'')"
    by (simp add: ex_call_rna_def)
  have sp: "adata_space ex_call_rna = snd (pp_adatas (\<lambda>names. names) ex_cells ex_space None)"
    by (simp add: ex_call_rna_def)
  have keep: "\<forall>names :: string list. length ((\<lambda>names. names) names) = length names" by simp
  have wf: "wf_adata ex_space" by (simp add: wf_adata_def n_vars_def ex_space_def)
  have nonneg: "list_all (list_all (\<lambda>x. 0 \<le> x)) (rows_of (X ex_space))"
    by (simp add: ex_space_def)
  have total: "0 < sum_list (map sum_list (rows_of (X ex_space)))"
    by (simp add: ex_space_def)
  from rna sp keep wf nonneg total
  have prior: "density_prior ex_call_rna = Some (Label ''uniform'') \<and> 0 < n_obs (adata_space ex_call_rna)
         \<or> density_prior ex_call_rna = Some (Label ''rna_count_based'')
           \<and> adata_space ex_call_rna = snd (pp_adatas (\<lambda>names. names) ex_cells ex_space None)
           \<and> (\<forall>names :: string list. length ((\<lambda>names. names) names) = length names)
           \<and> wf_adata ex_space
           \<and> list_all (list_all (\<lambda>x. 0 \<le> x)) (rows_of (X ex_space))
           \<and> 0 < sum_list (map sum_list (rows_of (X ex_space)))"
    by blast
  have first: "length (kw_G ?K) = n_obs (adata_space ex_call_rna)
       \<and> is_density (n_obs (adata_space ex_call_rna)) (kw_d ?K)"
    by (rule density_handed_to_optimizer [OF run prior])
  have "fst (map_cells_to_space ex_env ?cu) = [Mapper_constructed ?U, Train_called ?T]"
    by (simp add: run_defs example_defs)
  then have run2: "Mapper_constructed ?U \<in> set (fst (map_cells_to_space ex_env ?cu))"
    by simp
  have spots: "0 < n_obs (adata_space ?cu)" "n_obs (adata_space ?cu) = 2"
    by (simp_all add: n_obs_def example_defs)
  then have prior2: "density_prior ?cu = Some (Label ''uniform'') \<and> 0 < n_obs (adata_space ?cu)
         \<or> density_prior ?cu = Some (Label ''rna_count_based'')
           \<and> adata_space ?cu = snd (pp_adatas (\<lambda>names. names) ex_cells ex_space None)
           \<and> (\<forall>names :: string list. length ((\<lambda>names. names) names) = length names)
           \<and> wf_adata ex_space
           \<and> list_all (list_all (\<lambda>x. 0 \<le> x)) (rows_of (X ex_space))
           \<and> 0 < sum_list (map sum_list (rows_of (X ex_space)))"
    by simp
  have second: "length (kw_G ?U) = n_obs (adata_space ?cu)
       \<and> is_density (n_obs (adata_space ?cu)) (kw_d ?U)"
    by (rule density_handed_to_optimizer [OF run2 prior2])
  from run rna sp wf nonneg total first have A: "\<exists>kw. Mapper_constructed kw \<in> set (fst (map_cells_to_space ex_env ex_call_rna))
        \<and> density_prior ex_call_rna = Some (Label ''rna_count_based'')
        \<and> adata_space ex_call_rna = snd (pp_adatas (\<lambda>names. names) ex_cells ex_space None)
        \<and> wf_adata ex_space
        \<and> list_all (list_all (\<lambda>x. 0 \<le> x)) (rows_of (X ex_space))
        \<and> 0 < sum_list (map sum_list (rows_of (X ex_space)))
        \<and> kw_d kw = Some (Series [Num (Fin (3 / 8)), Num (Fin (5 / 8))])
        \<and> length (kw_G kw) = n_obs (adata_space ex_call_rna)
        \<and> is_density (n_obs (adata_space ex_call_rna)) (kw_d kw)"
    by (intro exI [of _ ?K]) simp
  from run2 spots second have B: "\<exists>kw. Mapper_constructed kw \<in> set (fst (map_cells_to_space ex_env ?cu))
        \<and> 0 < n_obs (adata_space ?cu)
        \<and> kw_d kw = Some (Array [Fin (1 / 2), Fin (1 / 2)])
        \<and> is_density 2 (kw_d kw)"
    by (intro exI [of _ ?U]) simp
  from A B show ?thesis by blast
qed

section \<open>Training scores\<close>

lemma toarray_rows: "toarray s = Inr m \<Longrightarrow> m = rows_of s"
  by (cases s) simp_all

lemma extract_S_length: "extract_S cells genes = Inr S_mat \<Longrightarrow> length S_mat = n_obs cells"
  by (auto simp: extract_S_def n_obs_def[symmetric] dest!: toarray_rows subset_var_n_obs
           split: if_splits sum.splits)

lemma set_insort_desc: "set (insort_desc x ys) = insert x (set ys)"
  by (induction ys) auto

lemma set_sort_values_desc: "set (sort_values_desc rows) = set rows"
  by (induction rows) (simp_all add: sort_values_desc_def set_insort_desc)

lemma length_cos_sims: "length (cos_sims n G_mat P) = n"
  by (simp add: cos_sims_def transpose_mat_def)

lemma cos_sims_nth:
  "j < n \<Longrightarrow> cos_sims n G_mat P ! j =
     true_divide (dot (col G_mat j) (col P j)) (linalg_norm (col G_mat j) * linalg_norm (col P j))"
  by (simp add: cos_sims_def transpose_mat_def Let_def)

lemma dot_sum: "length u = length v \<Longrightarrow> dot u v = (\<Sum>i<length u. u ! i * v ! i)"
  by (simp add: dot_def sum_list_sum_nth atLeast0LessThan)

lemma norm_sum: "linalg_norm v = sqrt (\<Sum>i<length v. (v ! i)\<^sup>2)"
  by (simp add: linalg_norm_def sum_list_sum_nth atLeast0LessThan power2_eq_square)

lemma cosine_of_columns:
  "length u = length v \<Longrightarrow>
   true_divide (dot u v) (linalg_norm u * linalg_norm v) = cosine_similarity u v"
  by (simp add: cosine_similarity_def dot_sum norm_sum)

lemma col_observed: "col G_mat j = observed_column G_mat j"
  by (rule nth_equalityI) (simp_all add: col_def observed_column_def)

lemma col_predicted:
  assumes j: "j < n" and cells: "length M = length S_mat"
  shows "col (matmul n (transpose_mat ns M) S_mat) j = predicted_column M S_mat ns j"
proof (rule nth_equalityI)
  show "length (col (matmul n (transpose_mat ns M) S_mat) j) = length (predicted_column M S_mat ns j)"
    by (simp add: col_def matmul_def transpose_mat_def predicted_column_def)
next
  fix s
  assume "s < length (col (matmul n (transpose_mat ns M) S_mat) j)"
  then have s: "s < ns" by (simp add: col_def matmul_def transpose_mat_def)
  have "col (matmul n (transpose_mat ns M) S_mat) j ! s = dot (col M s) (col S_mat j)"
    using s j by (simp add: col_def matmul_def transpose_mat_def)
  also have "\<dots> = (\<Sum>k<length S_mat. M ! k ! s * S_mat ! k ! j)"
    using cells by (simp add: dot_sum col_def)
  finally show "col (matmul n (transpose_mat ns M) S_mat) j ! s = predicted_column M S_mat ns j ! s"
    using s by (simp add: predicted_column_def)
qed

lemma save_results_parts:
  assumes "save_results env cells space genes S_mat G_mat M h = Inr r"
  shows "map_X r = M \<and> length M = n_obs cells
       \<and> map (\<lambda>row. (gene row, train_score row)) (train_genes_df r)
          = sort_values_desc (zip genes (cos_sims (length genes) G_mat
                   (matmul (length genes) (transpose_mat (n_obs space) M) S_mat)))"
  using assms
  by (auto simp: save_results_def Let_def subset_var_n_obs comp_def map_nth
           split: sum.splits if_splits)

lemma run_parts:
  assumes "map_cells_to_space env c = (events, Inr r)"
  shows "\<exists>cells genes kw h. map_cells_to_space_setup env c = Inr (cells, genes, kw)
           \<and> save_results env cells (adata_space c) genes (kw_S kw) (kw_G kw) (map_X r) h = Inr r"
proof -
  from assms obtain cells genes kw M h
    where "map_cells_to_space_setup env c = Inr (cells, genes, kw)"
      and saved: "save_results env cells (adata_space c) genes (kw_S kw) (kw_G kw) M h = Inr r"
    by (auto simp: map_cells_to_space_def Let_def split: sum.splits prod.splits)
  moreover from save_results_parts [OF saved] have "map_X r = M" by simp
  ultimately show ?thesis by blast
qed

text \<open>
  Claim C7. In every successful run, the \<^verbatim>\<open>train_score\<close> recorded for a training
  gene is the cosine similarity between its column of the observed matrix \<open>G\<close> and its
  column of the matrix predicted from the returned mapping \<open>M\<close> and \<open>S\<close>: the rows of
  the score table are exactly the training genes, each with that value. Numbers are
  reals; a zero denominator gives \<^verbatim>\<open>nan\<close> on both sides.
\<close>

theorem train_score_is_cosine_similarity:
  assumes run: "map_cells_to_space env c = (events, Inr r)"
  shows "\<exists>cells genes kw.
           map_cells_to_space_setup env c = Inr (cells, genes, kw)
           \<and> (\<lambda>row. (gene row, train_score row)) ` set (train_genes_df r)
             = (\<lambda>j. (genes ! j,
                      cosine_similarity (observed_column (kw_G kw) j)
                        (predicted_column (map_X r) (kw_S kw) (length (kw_G kw)) j)))
               ` {..<length genes}"
proof -
  from run_parts [OF run] obtain cells genes kw h
    where prep: "map_cells_to_space_setup env c = Inr (cells, genes, kw)"
      and saved: "save_results env cells (adata_space c) genes (kw_S kw) (kw_G kw) (map_X r) h
                  = Inr r"
    by blast
  let ?n = "length genes"
  let ?P = "matmul ?n (transpose_mat (n_obs (adata_space c)) (map_X r)) (kw_S kw)"
  let ?scores = "cos_sims ?n (kw_G kw) ?P"
  from setup_parts [OF prep]
  have S: "extract_S cells genes = Inr (kw_S kw)"
   and G: "extract_G (adata_space c) genes = Inr (kw_G kw)" by simp_all
  from save_results_parts [OF saved]
  have shape: "length (map_X r) = n_obs cells"
   and frame: "map (\<lambda>row. (gene row, train_score row)) (train_genes_df r)
               = sort_values_desc (zip genes ?scores)"
    by simp_all
  from shape extract_S_length [OF S] have cells: "length (map_X r) = length (kw_S kw)" by simp
  from extract_G_length [OF G] have spots: "n_obs (adata_space c) = length (kw_G kw)" by simp
  have score: "?scores ! j = cosine_similarity (observed_column (kw_G kw) j)
                 (predicted_column (map_X r) (kw_S kw) (length (kw_G kw)) j)"
    if j: "j < ?n" for j
  proof -
    have len: "length (observed_column (kw_G kw) j)
             = length (predicted_column (map_X r) (kw_S kw) (length (kw_G kw)) j)"
      by (simp add: observed_column_def predicted_column_def)
    have pred: "col ?P j = predicted_column (map_X r) (kw_S kw) (length (kw_G kw)) j"
      using col_predicted [OF j cells, of "n_obs (adata_space c)"] by (simp add: spots)
    have obsv: "col (kw_G kw) j = observed_column (kw_G kw) j"
      by (rule col_observed)
    have "?scores ! j = true_divide (dot (col (kw_G kw) j) (col ?P j))
                          (linalg_norm (col (kw_G kw) j) * linalg_norm (col ?P j))"
      using j by (rule cos_sims_nth)
    also have "\<dots> = cosine_similarity (observed_column (kw_G kw) j)
                 (predicted_column (map_X r) (kw_S kw) (length (kw_G kw)) j)"
      unfolding pred obsv by (rule cosine_of_columns [OF len])
    finally show ?thesis .
  qed
  have "(\<lambda>row. (gene row, train_score row)) ` set (train_genes_df r)
      = set (map (\<lambda>row. (gene row, train_score row)) (train_genes_df r))"
    by simp
  also have "\<dots> = set (zip genes ?scores)"
    by (simp only: frame set_sort_values_desc)
  also have "\<dots> = (\<lambda>j. (genes ! j, ?scores ! j)) ` {..<?n}"
    by (auto simp: set_zip length_cos_sims image_def)
  also have "\<dots> = (\<lambda>j. (genes ! j,
                      cosine_similarity (observed_column (kw_G kw) j)
                        (predicted_column (map_X r) (kw_S kw) (length (kw_G kw)) j)))
               ` {..<?n}"
    using score by (intro image_cong) simp_all
  finally show ?thesis using prep by blast
qed


lemmas save_defs =
  save_results_def cos_sims_def transpose_mat_def col_def matmul_def dot_def linalg_norm_def
  sort_values_desc_def var_sparsity_def reindex_for_setitem_def n_obs_def

lemma sqrt_25: "sqrt 25 = 5"
proof -
  have "sqrt 25 = sqrt (5\<^sup>2)" by simp
  also have "\<dots> = 5" by (simp only: real_sqrt_abs abs_numeral)
  finally show ?thesis .
qed

lemma ex_run:
  "map_cells_to_space ex_env ex_call =
     ([Mapper_constructed
          \<lparr>kw_S = [[1, 0], [0, 1], [2, 0], [0, 3]], kw_G = [[3, 0], [4, 1]], kw_d = None,
           kw_device = ''cpu'', kw_adata_map = None, kw_random_state = None,
           kw_lambda_d = 0, kw_lambda_g1 = 1, kw_lambda_g2 = 0, kw_lambda_r = 0\<rparr>,
       Train_called
          \<lparr>kw_learning_rate = 1 / 10, kw_num_epochs = 1000, kw_print_each = Some 100,
           kw_experiment = None\<rparr>],
      Inr \<lparr>map_X = [[1, 0], [0, 1], [0, 0], [0, 0]],
           map_obs = obs ex_cells, map_var = obs ex_space,
           train_genes_df =
             [\<lparr>gene = ''b'', train_score = Fin 1, sparsity_sc = Num (Fin 0),
               sparsity_sp = Num (Fin 0), sparsity_diff = Num (Fin 0)\<rparr>,
              \<lparr>gene = ''a'', train_score = Fin (3 / 5), sparsity_sc = Num (Fin 0),
               sparsity_sp = Num (Fin 0), sparsity_diff = Num (Fin 0)\<rparr>],
           training_history = []\<rparr>)"
  by (simp add: run_defs save_defs example_defs sqrt_25)


theorem train_score_is_cosine_similarity_witness:
  "\<exists>events r cells kw.
      map_cells_to_space ex_env ex_call = (events, Inr r)
      \<and> map_cells_to_space_setup ex_env ex_call = Inr (cells, [''a'', ''b''], kw)
      \<and> map (\<lambda>row. (gene row, train_score row)) (train_genes_df r)
          = [(''b'', Fin 1), (''a'', Fin (3 / 5))]
      \<and> (\<lambda>row. (gene row, train_score row)) ` set (train_genes_df r)
          = (\<lambda>j. ([''a'', ''b''] ! j,
                   cosine_similarity (observed_column (kw_G kw) j)
                     (predicted_column (map_X r) (kw_S kw) (length (kw_G kw)) j)))
            ` {..<length [''a'', ''b'']}"
proof -
  let ?r = "\<lparr>map_X = [[1, 0], [0, 1], [0, 0], [0, 0]],
           map_obs = obs ex_cells, map_var = obs ex_space,
           train_genes_df =
             [\<lparr>gene = ''b'', train_score = Fin 1, sparsity_sc = Num (Fin 0),
               sparsity_sp = Num (Fin 0), sparsity_diff = Num (Fin 0)\<rparr>,
              \<lparr>gene = ''a'', train_score = Fin (3 / 5), sparsity_sc = Num (Fin 0),
               sparsity_sp = Num (Fin 0), sparsity_diff = Num (Fin 0)\<rparr>],
           training_history = []\<rparr> :: real list mapping"
  obtain events where run: "map_cells_to_space ex_env ex_call = (events, Inr ?r)"
    using ex_run by blast
  from train_score_is_cosine_similarity [OF run] obtain cells genes kw
    where prep: "map_cells_to_space_setup ex_env ex_call = Inr (cells, genes, kw)"
      and scores: "(\<lambda>row. (gene row, train_score row)) ` set (train_genes_df ?r)
          = (\<lambda>j. (genes ! j,
                   cosine_similarity (observed_column (kw_G kw) j)
                     (predicted_column (map_X ?r) (kw_S kw) (length (kw_G kw)) j)))
            ` {..<length genes}"
    by blast
  from prep have genes: "genes = [''a'', ''b'']"
    by (simp add: run_defs example_defs)
  have frame: "map (\<lambda>row. (gene row, train_score row)) (train_genes_df ?r)
          = [(''b'', Fin 1), (''a'', Fin (3 / 5))]"
    by simp
  from run prep scores frame
  have "map_cells_to_space ex_env ex_call = (events, Inr ?r)
      \<and> map_cells_to_space_setup ex_env ex_call = Inr (cells, [''a'', ''b''], kw)
      \<and> map (\<lambda>row. (gene row, train_score row)) (train_genes_df ?r)
          = [(''b'', Fin 1), (''a'', Fin (3 / 5))]
      \<and> (\<lambda>row. (gene row, train_score row)) ` set (train_genes_df ?r)
          = (\<lambda>j. ([''a'', ''b''] ! j,
                   cosine_similarity (observed_column (kw_G kw) j)
                     (predicted_column (map_X ?r) (kw_S kw) (length (kw_G kw)) j)))
            ` {..<length [''a'', ''b'']}"
    unfolding genes by - (intro conjI, assumption+)
  then show ?thesis
    by (intro exI)
qed

section \<open>Clusters mode without density prior\<close>

lemma uniform_density_entries:
  "uniform_density G_mat = Array (replicate (length G_mat) (Fin (1 / real (length G_mat))))"
  by (cases "length G_mat = 0") (simp_all add: uniform_density_def true_divide_def)

lemma check_arguments_lambda_d:
  "density_prior c = None \<Longrightarrow> check_arguments (c\<lparr>lambda_d := x\<rparr>) = check_arguments c"
  by (simp add: check_arguments_def)

lemma setup_lambda_d:
  assumes "density_prior c = None"
  shows "map_cells_to_space_setup env (c\<lparr>lambda_d := x\<rparr>)
       = map_sum id (\<lambda>(cells, genes, kw). (cells, genes, kw\<lparr>kw_lambda_d := x\<rparr>))
           (map_cells_to_space_setup env c)"
  using assms
  by (simp add: map_cells_to_space_setup_def check_arguments_lambda_d cluster_cells_def
        split: option.splits sum.splits)

text \<open>
  Claim C9. In clusters mode with no \<^verbatim>\<open>density_prior\<close>, the check of the density
  weight raises no error: a call with \<^verbatim>\<open>lambda_d == 0\<close> gets exactly as far as the same
  call with any other weight. Whenever the optimizer is constructed, it is handed the
  uniform density, each entry 1 over the number of spots.
\<close>

theorem clusters_default_density:
  assumes clusters: "mode c = ''clusters''" and prior: "density_prior c = None"
  shows "check_arguments c \<noteq> Some (ValueError ''When density_prior is not None, lambda_d cannot be 0.'')
       \<and> map_cells_to_space_setup env (c\<lparr>lambda_d := 0\<rparr>)
         = map_sum id (\<lambda>(cells, genes, kw). (cells, genes, kw\<lparr>kw_lambda_d := 0\<rparr>))
             (map_cells_to_space_setup env c)
       \<and> (\<forall>kw. Mapper_constructed kw \<in> set (fst (map_cells_to_space env c)) \<longrightarrow>
              kw_d kw = Some (Array (replicate (n_obs (adata_space c))
                                       (Fin (1 / real (n_obs (adata_space c)))))))"
proof (intro conjI allI impI)
  from prior show "check_arguments c
      \<noteq> Some (ValueError ''When density_prior is not None, lambda_d cannot be 0.'')"
    by (simp add: check_arguments_def)
next
  from prior show "map_cells_to_space_setup env (c\<lparr>lambda_d := 0\<rparr>)
         = map_sum id (\<lambda>(cells, genes, kw). (cells, genes, kw\<lparr>kw_lambda_d := 0\<rparr>))
             (map_cells_to_space_setup env c)"
    by (rule setup_lambda_d)
next
  fix kw
  assume "Mapper_constructed kw \<in> set (fst (map_cells_to_space env c))"
  from optimizer_arguments [OF this] obtain cells genes
    where prep: "map_cells_to_space_setup env c = Inr (cells, genes, kw)" by blast
  from setup_parts [OF prep] obtain p
    where G: "extract_G (adata_space c) genes = Inr (kw_G kw)"
      and p: "resolve_density_prior (adata_space c) (kw_G kw) (density_prior c) = Inr p"
      and assigned: "kw_d kw = assign_d (mode c) (kw_G kw) (d c) p"
    by blast
  from p prior have "p = None" by (simp add: resolve_density_prior_def)
  with assigned clusters have "kw_d kw = Some (uniform_density (kw_G kw))"
    by (simp add: assign_d_def)
  with extract_G_length [OF G]
  show "kw_d kw = Some (Array (replicate (n_obs (adata_space c))
                                       (Fin (1 / real (n_obs (adata_space c))))))"
    by (simp add: uniform_density_entries)
qed


lemma value_counts_example:
  "value_counts [Str ''A'', Str ''A'', Str ''B'', Str ''A'']
     = [(Str ''A'', 3 / 4), (Str ''B'', 1 / 4)]"
  by (simp add: value_counts_def pd_unique_def Let_def)

lemma ex_clusters_cells:
  "cluster_cells ex_call_clusters =
     Inr (ex_cells\<lparr>X := Ndarray [[1, 4], [2, 0]],
           obs := [''cluster'' \<mapsto> [Str ''A'', Str ''B''],
                   ''cluster_density'' \<mapsto> [Num (Fin (3 / 4)), Num (Fin (1 / 4))]]\<rparr>)"
  by (simp add: cluster_cells_def adata_to_cluster_expression_def value_counts_example
        series_get_def cluster_row_def select_rows_def sum_axis0_def n_vars_def example_defs)

lemma ex_clusters_run:
  "map_cells_to_space ex_env_clusters ex_call_clusters =
     ([Mapper_constructed
          \<lparr>kw_S = [[1, 4], [2, 0]], kw_G = [[3, 0], [4, 1]],
           kw_d = Some (Array [Fin (1 / 2), Fin (1 / 2)]),
           kw_device = ''cpu'', kw_adata_map = None, kw_random_state = None,
           kw_lambda_d = 0, kw_lambda_g1 = 1, kw_lambda_g2 = 0, kw_lambda_r = 0\<rparr>,
       Train_called
          \<lparr>kw_learning_rate = 1 / 10, kw_num_epochs = 1000, kw_print_each = Some 100,
           kw_experiment = None\<rparr>],
      Inr \<lparr>map_X = [[0, 0], [1, 0]],
           map_obs = [''cluster'' \<mapsto> [Str ''A'', Str ''B''],
                      ''cluster_density'' \<mapsto> [Num (Fin (3 / 4)), Num (Fin (1 / 4))]],
           map_var = obs ex_space,
           train_genes_df =
             [\<lparr>gene = ''a'', train_score = Fin (3 / 5), sparsity_sc = Num (Fin 0),
               sparsity_sp = Num (Fin 0), sparsity_diff = Num (Fin 0)\<rparr>,
              \<lparr>gene = ''b'', train_score = NaN, sparsity_sc = Num (Fin 0),
               sparsity_sp = Num (Fin 0), sparsity_diff = Num (Fin 0)\<rparr>],
           training_history = []\<rparr>)"
proof -
  have checks: "check_arguments ex_call_clusters = None"
    by (simp add: check_arguments_def example_defs)
  have fields: "adata_space ex_call_clusters = ex_space" "mode ex_call_clusters = ''clusters''"
    "density_prior ex_call_clusters = None" "device ex_call_clusters = ''cpu''"
    "adata_map ex_call_clusters = None" "random_state ex_call_clusters = None"
    "lambda_d ex_call_clusters = 0" "lambda_g1 ex_call_clusters = 1"
    "lambda_g2 ex_call_clusters = 0" "lambda_r ex_call_clusters = 0"
    "verbose ex_call_clusters" "learning_rate ex_call_clusters = 1 / 10"
    "num_epochs ex_call_clusters = 1000" "comet_experiment ex_call_clusters = None"
    by (simp_all add: ex_call_clusters_def ex_call_def)
  show ?thesis
    by (simp add: map_cells_to_space_def map_cells_to_space_setup_def checks ex_clusters_cells
          fields get_training_genes_def extract_S_def extract_G_def subset_var_def take_at_def
          any_axis0_all_def resolve_density_prior_def assign_d_def uniform_density_def
          true_divide_def Let_def save_defs sqrt_25
          ex_cells_def ex_space_def ex_env_def ex_env_clusters_def)
qed

theorem clusters_default_density_witness:
  "mode ex_call_clusters = ''clusters''
   \<and> density_prior ex_call_clusters = None
   \<and> lambda_d ex_call_clusters = 0
   \<and> (\<exists>events r kw.
         map_cells_to_space ex_env_clusters ex_call_clusters = (events, Inr r)
         \<and> Mapper_constructed kw \<in> set events
         \<and> kw_d kw = Some (Array [Fin (1 / 2), Fin (1 / 2)])
         \<and> kw_d kw = Some (Array (replicate (n_obs (adata_space ex_call_clusters))
                                    (Fin (1 / real (n_obs (adata_space ex_call_clusters)))))))"
proof -
  let ?K = "\<lparr>kw_S = [[1, 4], [2, 0]], kw_G = [[3, 0], [4, 1]],
             kw_d = Some (Array [Fin (1 / 2), Fin (1 / 2)]),
             kw_device = ''cpu'', kw_adata_map = None, kw_random_state = None,
             kw_lambda_d = 0, kw_lambda_g1 = 1, kw_lambda_g2 = 0, kw_lambda_r = 0\<rparr>"
  have clusters: "mode ex_call_clusters = ''clusters''"
    by (simp add: ex_call_clusters_def)
  have prior: "density_prior ex_call_clusters = None"
    by (simp add: ex_call_clusters_def ex_call_def)
  have weight: "lambda_d ex_call_clusters = 0"
    by (simp add: ex_call_clusters_def ex_call_def)
  from ex_clusters_run obtain events r
    where run: "map_cells_to_space ex_env_clusters ex_call_clusters = (events, Inr r)"
      and handed: "Mapper_constructed ?K \<in> set events"
    by simp
  from handed run
  have "Mapper_constructed ?K \<in> set (fst (map_cells_to_space ex_env_clusters ex_call_clusters))"
    by simp
  with clusters_default_density [OF clusters prior, of ex_env_clusters]
  have uniform: "kw_d ?K = Some (Array (replicate (n_obs (adata_space ex_call_clusters))
                                    (Fin (1 / real (n_obs (adata_space ex_call_clusters))))))"
    by blast
  have density: "kw_d ?K = Some (Array [Fin (1 / 2), Fin (1 / 2)])" by simp
  from run handed density uniform
  have "\<exists>events r kw.
         map_cells_to_space ex_env_clusters ex_call_clusters = (events, Inr r)
         \<and> Mapper_constructed kw \<in> set events
         \<and> kw_d kw = Some (Array [Fin (1 / 2), Fin (1 / 2)])
         \<and> kw_d kw = Some (Array (replicate (n_obs (adata_space ex_call_clusters))
                                    (Fin (1 / real (n_obs (adata_space ex_call_clusters))))))"
    by blast
  with clusters prior weight show ?thesis by blast
qed

end
